theory Spec2Isabelle
  imports Complex_Main
begin

section \<open>Errors\<close>

text \<open>
  The exceptions the operators can raise. \<open>Unmodelled\<close> marks behaviour of numpy that
  the model does not follow: arrays of a rank an operator is not written for, and
  results that would hold \<open>nan\<close>.
\<close>

datatype py_error =
  ValueError | TypeError | IndexError | ZeroDivisionError | UnboundLocalError | AttributeError
  | Unmodelled

text \<open>Sequencing of fallible steps: the first exception ends the computation.\<close>

definition thenE :: "py_error + 'a \<Rightarrow> ('a \<Rightarrow> py_error + 'b) \<Rightarrow> py_error + 'b" where
  "thenE x f = (case x of Inl e \<Rightarrow> Inl e | Inr v \<Rightarrow> f v)"

fun mapE :: "('a \<Rightarrow> py_error + 'b) \<Rightarrow> 'a list \<Rightarrow> py_error + 'b list" where
  "mapE f [] = Inr []"
| "mapE f (x # xs) = thenE (f x) (\<lambda>y. thenE (mapE f xs) (\<lambda>ys. Inr (y # ys)))"

text \<open>A \<open>for\<close> loop over a list that threads a state: the first exception ends the loop.\<close>

fun foldE :: "('s \<Rightarrow> 'a \<Rightarrow> py_error + 's) \<Rightarrow> 's \<Rightarrow> 'a list \<Rightarrow> py_error + 's" where
  "foldE f s [] = Inr s"
| "foldE f s (x # xs) = thenE (f s x) (\<lambda>s'. foldE f s' xs)"

section \<open>Arrays\<close>

text \<open>
  A numpy array is its shape and its elements in row-major (C) order, so that
  \<open>reshape\<close> keeps the elements and changes the shape only. Floating-point values are
  idealised as reals.
\<close>

record 'a ndarray =
  shape :: "nat list"
  data :: "'a list"

definition wf_nd :: "'a ndarray \<Rightarrow> bool" where
  "wf_nd a \<longleftrightarrow> length (data a) = prod_list (shape a)"

text \<open>The offset of a multi-index in row-major order, and the multi-index of an offset.\<close>

fun ravel :: "nat list \<Rightarrow> nat list \<Rightarrow> nat" where
  "ravel (d # ds) (i # js) = i * prod_list ds + ravel ds js"
| "ravel _ _ = 0"

fun unravel :: "nat list \<Rightarrow> nat \<Rightarrow> nat list" where
  "unravel [] k = []"
| "unravel (d # ds) k = (k div prod_list ds) # unravel ds (k mod prod_list ds)"

definition tabulate :: "nat list \<Rightarrow> (nat list \<Rightarrow> 'a) \<Rightarrow> 'a ndarray" where
  "tabulate sh f = \<lparr>shape = sh, data = map (\<lambda>k. f (unravel sh k)) [0..<prod_list sh]\<rparr>"

definition nd_at :: "'a ndarray \<Rightarrow> nat list \<Rightarrow> 'a" where
  "nd_at a idx = data a ! ravel (shape a) idx"

text \<open>Arrays of rank 2 to 5 by their elements.\<close>

definition tab2 :: "nat \<Rightarrow> nat \<Rightarrow> (nat \<Rightarrow> nat \<Rightarrow> 'a) \<Rightarrow> 'a ndarray" where
  "tab2 r c f = tabulate [r, c] (\<lambda>idx. f (idx ! 0) (idx ! 1))"

definition at2 :: "'a ndarray \<Rightarrow> nat \<Rightarrow> nat \<Rightarrow> 'a" where
  "at2 m i j = nd_at m [i, j]"

definition tab3 :: "nat \<Rightarrow> nat \<Rightarrow> nat \<Rightarrow> (nat \<Rightarrow> nat \<Rightarrow> nat \<Rightarrow> 'a) \<Rightarrow> 'a ndarray" where
  "tab3 a b c f = tabulate [a, b, c] (\<lambda>idx. f (idx ! 0) (idx ! 1) (idx ! 2))"

definition at3 :: "'a ndarray \<Rightarrow> nat \<Rightarrow> nat \<Rightarrow> nat \<Rightarrow> 'a" where
  "at3 m i j k = nd_at m [i, j, k]"

definition tab4 ::
  "nat \<Rightarrow> nat \<Rightarrow> nat \<Rightarrow> nat \<Rightarrow> (nat \<Rightarrow> nat \<Rightarrow> nat \<Rightarrow> nat \<Rightarrow> 'a) \<Rightarrow> 'a ndarray" where
  "tab4 a b c d f = tabulate [a, b, c, d] (\<lambda>idx. f (idx ! 0) (idx ! 1) (idx ! 2) (idx ! 3))"

definition at4 :: "'a ndarray \<Rightarrow> nat \<Rightarrow> nat \<Rightarrow> nat \<Rightarrow> nat \<Rightarrow> 'a" where
  "at4 m n c h w = nd_at m [n, c, h, w]"

definition tab5 ::
  "nat \<Rightarrow> nat \<Rightarrow> nat \<Rightarrow> nat \<Rightarrow> nat \<Rightarrow> (nat \<Rightarrow> nat \<Rightarrow> nat \<Rightarrow> nat \<Rightarrow> nat \<Rightarrow> 'a) \<Rightarrow> 'a ndarray"
  where
  "tab5 a b c d e f =
     tabulate [a, b, c, d, e] (\<lambda>idx. f (idx ! 0) (idx ! 1) (idx ! 2) (idx ! 3) (idx ! 4))"

definition at5 :: "'a ndarray \<Rightarrow> nat \<Rightarrow> nat \<Rightarrow> nat \<Rightarrow> nat \<Rightarrow> nat \<Rightarrow> 'a" where
  "at5 m n c q h w = nd_at m [n, c, q, h, w]"

text \<open>\<open>np.array\<close> of a list of rows, and of a list of numbers.\<close>

definition array2 :: "'a list list \<Rightarrow> 'a ndarray" where
  "array2 xss = \<lparr>shape = [length xss, (case xss of [] \<Rightarrow> 0 | xs # _ \<Rightarrow> length xs)],
     data = concat xss\<rparr>"

definition array1 :: "'a list \<Rightarrow> 'a ndarray" where
  "array1 xs = \<lparr>shape = [length xs], data = xs\<rparr>"

text \<open>\<open>np.zeros\<close>\<close>

definition np_zeros :: "nat list \<Rightarrow> real ndarray" where
  "np_zeros sh = \<lparr>shape = sh, data = replicate (prod_list sh) 0\<rparr>"

text \<open>
  \<open>a.reshape(ds)\<close>: at most one entry of \<open>ds\<close> is \<open>-1\<close> and is inferred from the size; the
  element count must be kept.
\<close>

definition np_reshape :: "'a ndarray \<Rightarrow> int list \<Rightarrow> py_error + 'a ndarray" where
  "np_reshape a ds =
     (let n = length (data a); known = filter (\<lambda>d. d \<noteq> - 1) ds; p = nat (prod_list known) in
      if list_ex (\<lambda>d. d < - 1) ds \<or> length known + 1 < length ds then Inl ValueError
      else if length known = length ds then
        (if p = n then Inr \<lparr>shape = map nat ds, data = data a\<rparr> else Inl ValueError)
      else if p = 0 \<or> n mod p \<noteq> 0 then Inl ValueError
      else Inr \<lparr>shape = map (\<lambda>d. if d = - 1 then n div p else nat d) ds, data = data a\<rparr>)"

text \<open>\<open>a.transpose(perm)\<close>: axis \<open>k\<close> of the result is axis \<open>perm ! k\<close> of \<open>a\<close>.\<close>

fun pos_of :: "nat \<Rightarrow> nat list \<Rightarrow> nat" where
  "pos_of x [] = 0"
| "pos_of x (y # ys) = (if x = y then 0 else Suc (pos_of x ys))"

definition np_transpose :: "'a ndarray \<Rightarrow> nat list \<Rightarrow> 'a ndarray" where
  "np_transpose a perm =
     tabulate (map (\<lambda>ax. shape a ! ax) perm)
       (\<lambda>idx. nd_at a (map (\<lambda>ax. idx ! pos_of ax perm) [0..<length perm]))"

text \<open>\<open>m.T\<close> and \<open>m.transpose()\<close>: the axes in reverse order.\<close>

definition transpose2 :: "'a ndarray \<Rightarrow> 'a ndarray" where
  "transpose2 m = np_transpose m (rev [0..<length (shape m)])"

text \<open>
  Broadcasting: shapes are aligned at their last axes, an axis of length 1 is
  stretched, and other lengths must agree.
\<close>

definition bdim :: "nat \<times> nat \<Rightarrow> py_error + nat" where
  "bdim mn = (case mn of (m, n) \<Rightarrow>
     if m = n then Inr m else if m = 1 then Inr n else if n = 1 then Inr m
     else Inl ValueError)"

definition lpad :: "nat \<Rightarrow> nat list \<Rightarrow> nat list" where
  "lpad r sh = replicate (r - length sh) 1 @ sh"

definition bshape :: "nat list \<Rightarrow> nat list \<Rightarrow> py_error + nat list" where
  "bshape xs ys = (let r = max (length xs) (length ys) in mapE bdim (zip (lpad r xs) (lpad r ys)))"

definition bidx :: "nat \<Rightarrow> nat \<Rightarrow> nat" where
  "bidx d i = (if d = 1 then 0 else i)"

definition bcast_idx :: "nat list \<Rightarrow> nat list \<Rightarrow> nat list" where
  "bcast_idx sh idx = map2 bidx sh (drop (length idx - length sh) idx)"

definition broadcast_op ::
  "('a \<Rightarrow> 'b \<Rightarrow> 'c) \<Rightarrow> 'a ndarray \<Rightarrow> 'b ndarray \<Rightarrow> py_error + 'c ndarray" where
  "broadcast_op f a b =
     thenE (bshape (shape a) (shape b)) (\<lambda>sh.
       Inr (tabulate sh (\<lambda>idx. f (nd_at a (bcast_idx (shape a) idx))
                                 (nd_at b (bcast_idx (shape b) idx)))))"

text \<open>An elementwise operation on one array, and the product with a Python number.\<close>

definition nd_map :: "('a \<Rightarrow> 'b) \<Rightarrow> 'a ndarray \<Rightarrow> 'b ndarray" where
  "nd_map f a = \<lparr>shape = shape a, data = map f (data a)\<rparr>"

text \<open>\<open>np.matmul\<close> and \<open>dot\<close> of two-dimensional arrays.\<close>

definition np_matmul :: "real ndarray \<Rightarrow> real ndarray \<Rightarrow> py_error + real ndarray" where
  "np_matmul a b =
     (case (shape a, shape b) of
        ([m, k], [k', n]) \<Rightarrow>
          if k \<noteq> k' then Inl ValueError
          else Inr (tab2 m n (\<lambda>i j. \<Sum>l\<leftarrow>[0..<k]. at2 a i l * at2 b l j))
      | _ \<Rightarrow> Inl Unmodelled)"

text \<open>\<open>np.sum(m, axis=0)\<close> of a two-dimensional array.\<close>

definition sum_axis0 :: "real ndarray \<Rightarrow> py_error + real ndarray" where
  "sum_axis0 m =
     (case shape m of
        [r, c] \<Rightarrow> Inr (array1 (map (\<lambda>j. \<Sum>i\<leftarrow>[0..<r]. at2 m i j) [0..<c]))
      | _ \<Rightarrow> Inl Unmodelled)"

section \<open>Affine operators\<close>

text \<open>Class \<open>matmul\<close> of operators.py.\<close>

definition matmul_forward :: "real ndarray \<Rightarrow> real ndarray \<Rightarrow> py_error + real ndarray" where
  "matmul_forward input weights = np_matmul input weights"

definition matmul_backward ::
  "real ndarray \<Rightarrow> real ndarray \<Rightarrow> real ndarray \<Rightarrow> py_error + real ndarray \<times> real ndarray"
  where
  "matmul_backward out_grad input weights =
     thenE (np_matmul out_grad (transpose2 weights)) (\<lambda>in_grad.
     thenE (np_matmul (transpose2 input) out_grad) (\<lambda>w_grad.
       Inr (in_grad, w_grad)))"

text \<open>Class \<open>add_bias\<close> of operators.py.\<close>

definition add_bias_forward :: "real ndarray \<Rightarrow> real ndarray \<Rightarrow> py_error + real ndarray" where
  "add_bias_forward input bias =
     thenE (np_reshape bias [1, - 1]) (\<lambda>b. broadcast_op (+) input b)"

definition add_bias_backward ::
  "real ndarray \<Rightarrow> real ndarray \<Rightarrow> real ndarray \<Rightarrow> py_error + real ndarray \<times> real ndarray"
  where
  "add_bias_backward out_grad input bias =
     thenE (sum_axis0 out_grad) (\<lambda>b_grad. Inr (out_grad, b_grad))"

text \<open>Class \<open>linear\<close> of operators.py: \<open>matmul\<close>, then \<open>add_bias\<close>.\<close>

definition linear_forward ::
  "real ndarray \<Rightarrow> real ndarray \<Rightarrow> real ndarray \<Rightarrow> py_error + real ndarray" where
  "linear_forward input weights bias =
     thenE (matmul_forward input weights) (\<lambda>output. add_bias_forward output bias)"

definition linear_backward ::
  "real ndarray \<Rightarrow> real ndarray \<Rightarrow> real ndarray \<Rightarrow> real ndarray
     \<Rightarrow> py_error + real ndarray \<times> real ndarray \<times> real ndarray" where
  "linear_backward out_grad input weights bias =
     thenE (add_bias_backward out_grad input bias) (\<lambda>(out_grad', b_grad).
     thenE (matmul_backward out_grad' input weights) (\<lambda>(in_grad, w_grad).
       Inr (in_grad, w_grad, b_grad)))"

text \<open>The free functions \<open>fc_forward\<close> and \<open>fc_backward\<close> of operations.py.\<close>

definition fc_forward ::
  "real ndarray \<Rightarrow> real ndarray \<Rightarrow> real ndarray \<Rightarrow> py_error + real ndarray" where
  "fc_forward input weights bias =
     thenE (np_matmul input weights) (\<lambda>p.
     thenE (np_reshape bias [1, - 1]) (\<lambda>b. broadcast_op (+) p b))"

definition fc_backward ::
  "real ndarray \<Rightarrow> real ndarray \<Rightarrow> real ndarray \<Rightarrow> real ndarray
     \<Rightarrow> py_error + real ndarray \<times> real ndarray \<times> real ndarray" where
  "fc_backward out_grad input weights bias =
     thenE (np_matmul out_grad (transpose2 weights)) (\<lambda>in_grad.
     thenE (np_matmul (transpose2 input) out_grad) (\<lambda>w_grad.
     thenE (sum_axis0 out_grad) (\<lambda>b_grad.
       Inr (in_grad, w_grad, b_grad))))"

section \<open>Array primitives of the spatial operators\<close>

text \<open>Python's \<open>a // b\<close> on integers.\<close>

definition py_floordiv :: "int \<Rightarrow> int \<Rightarrow> py_error + int" where
  "py_floordiv a b = (if b = 0 then Inl ZeroDivisionError else Inr (a div b))"

text \<open>\<open>np.arange\<close>, \<open>np.repeat\<close> and \<open>np.tile\<close> on one-dimensional index arrays.\<close>

definition np_arange :: "nat \<Rightarrow> nat list" where
  "np_arange n = [0..<n]"

definition np_repeat :: "'a list \<Rightarrow> nat \<Rightarrow> 'a list" where
  "np_repeat xs n = concat (map (replicate n) xs)"

definition np_tile :: "'a list \<Rightarrow> nat \<Rightarrow> 'a list" where
  "np_tile xs n = concat (replicate n xs)"

text \<open>\<open>v.reshape(-1, 1)\<close> and \<open>v.reshape(1, -1)\<close> of a one-dimensional array.\<close>

definition col_vector :: "'a list \<Rightarrow> 'a ndarray" where
  "col_vector xs = \<lparr>shape = [length xs, 1], data = xs\<rparr>"

definition row_vector :: "'a list \<Rightarrow> 'a ndarray" where
  "row_vector xs = \<lparr>shape = [1, length xs], data = xs\<rparr>"

text \<open>\<open>a.transpose(perm)\<close> with its check of the number of axes.\<close>

definition transposeE :: "'a ndarray \<Rightarrow> nat list \<Rightarrow> py_error + 'a ndarray" where
  "transposeE a perm =
     (if length perm \<noteq> length (shape a) then Inl ValueError else Inr (np_transpose a perm))"

text \<open>
  \<open>np.pad(x, ((0,0), (0,0), hp, wp))\<close> with zeros: four pairs fit an array of rank 4 only.
\<close>

definition np_pad4 :: "real ndarray \<Rightarrow> nat \<times> nat \<Rightarrow> nat \<times> nat \<Rightarrow> py_error + real ndarray" where
  "np_pad4 x hp wp =
     (case shape x of
        [N, C, H, W] \<Rightarrow>
          Inr (tab4 N C (fst hp + H + snd hp) (fst wp + W + snd wp)
                 (\<lambda>n c h w. if fst hp \<le> h \<and> h < fst hp + H \<and> fst wp \<le> w \<and> w < fst wp + W
                              then at4 x n c (h - fst hp) (w - fst wp) else 0))
      | _ \<Rightarrow> Inl ValueError)"

text \<open>\<open>np.pad(x, pad_width=(p,))\<close> with zeros: every axis grows by \<open>p\<close> on both sides.\<close>

definition np_pad_all :: "real ndarray \<Rightarrow> nat \<Rightarrow> real ndarray" where
  "np_pad_all x p =
     tabulate (map (\<lambda>d. d + 2 * p) (shape x))
       (\<lambda>idx. if list_all2 (\<lambda>i d. p \<le> i \<and> i < p + d) idx (shape x)
               then nd_at x (map (\<lambda>i. i - p) idx) else 0)"

text \<open>
  \<open>x[:, :, h0:h1, w0:w1]\<close> of an array of rank 4 with bounds that are not negative: a slice
  is cut at the end of its axis.
\<close>

definition slice4 :: "'a ndarray \<Rightarrow> nat \<Rightarrow> nat \<Rightarrow> nat \<Rightarrow> nat \<Rightarrow> 'a ndarray" where
  "slice4 x h0 h1 w0 w1 =
     (let H = shape x ! 2; W = shape x ! 3 in
      tab4 (shape x ! 0) (shape x ! 1) (min h1 H - min h0 H) (min w1 W - min w0 W)
        (\<lambda>n c h w. at4 x n c (min h0 H + h) (min w0 W + w)))"

text \<open>\<open>np.stack(arrays, axis=-1)\<close> and \<open>np.stack(arrays, axis=0)\<close>.\<close>

definition np_stack_last :: "'a ndarray list \<Rightarrow> py_error + 'a ndarray" where
  "np_stack_last arrs =
     (case arrs of
        [] \<Rightarrow> Inl ValueError
      | a # _ \<Rightarrow>
          if list_ex (\<lambda>b. shape b \<noteq> shape a) arrs then Inl ValueError
          else Inr (tabulate (shape a @ [length arrs])
                     (\<lambda>idx. nd_at (arrs ! last idx) (butlast idx))))"

definition np_stack0 :: "'a ndarray list \<Rightarrow> py_error + 'a ndarray" where
  "np_stack0 arrs =
     (case arrs of
        [] \<Rightarrow> Inl ValueError
      | a # _ \<Rightarrow>
          if list_ex (\<lambda>b. shape b \<noteq> shape a) arrs then Inl ValueError
          else Inr (tabulate (length arrs # shape a)
                     (\<lambda>idx. nd_at (arrs ! hd idx) (tl idx))))"

text \<open>Iterating over an array yields its sub-arrays along the first axis.\<close>

definition unstack0 :: "'a ndarray \<Rightarrow> 'a ndarray list" where
  "unstack0 a =
     map (\<lambda>i. tabulate (tl (shape a)) (\<lambda>idx. nd_at a (i # idx))) [0..<hd (shape a)]"

text \<open>
  \<open>X[:, ci, hi, wi]\<close> on an array of rank 4 with three integer index arrays: the index
  arrays are broadcast against each other, and every index must lie inside its axis.
\<close>

definition index_shape :: "nat list \<Rightarrow> nat list \<Rightarrow> nat list \<Rightarrow> py_error + nat list" where
  "index_shape s1 s2 s3 =
     (case thenE (bshape s1 s2) (\<lambda>s. bshape s s3) of
        Inl e \<Rightarrow> Inl IndexError
      | Inr sh \<Rightarrow> Inr sh)"

definition fancy_index4 ::
  "real ndarray \<Rightarrow> nat ndarray \<Rightarrow> nat ndarray \<Rightarrow> nat ndarray \<Rightarrow> py_error + real ndarray" where
  "fancy_index4 X ci hi wi =
     (case shape X of
        [N, C, H, W] \<Rightarrow>
          thenE (index_shape (shape ci) (shape hi) (shape wi)) (\<lambda>sh.
            if list_ex (\<lambda>c. C \<le> c) (data ci) \<or> list_ex (\<lambda>h. H \<le> h) (data hi)
               \<or> list_ex (\<lambda>w. W \<le> w) (data wi)
            then Inl IndexError
            else Inr (tabulate (N # sh)
                   (\<lambda>idx. at4 X (hd idx) (nd_at ci (bcast_idx (shape ci) (tl idx)))
                             (nd_at hi (bcast_idx (shape hi) (tl idx)))
                             (nd_at wi (bcast_idx (shape wi) (tl idx))))))
      | _ \<Rightarrow> Inl Unmodelled)"

text \<open>
  \<open>np.add.at(A, (slice(None), ci, hi, wi), vals)\<close>: for every index of the broadcast
  index arrays, in order, the value is added to the indexed element of \<open>A\<close>; an element
  indexed several times receives every one of its values.
\<close>

definition add_at4 ::
  "real ndarray \<Rightarrow> nat ndarray \<Rightarrow> nat ndarray \<Rightarrow> nat ndarray \<Rightarrow> real ndarray
     \<Rightarrow> py_error + real ndarray" where
  "add_at4 A ci hi wi vals =
     (case shape A of
        [N, C, H, W] \<Rightarrow>
          thenE (index_shape (shape ci) (shape hi) (shape wi)) (\<lambda>sh.
            if list_ex (\<lambda>c. C \<le> c) (data ci) \<or> list_ex (\<lambda>h. H \<le> h) (data hi)
               \<or> list_ex (\<lambda>w. W \<le> w) (data wi)
            then Inl IndexError
            else if bshape (N # sh) (shape vals) \<noteq> Inr (N # sh) then Inl ValueError
            else Inr (foldl
                   (\<lambda>acc idx.
                      let k = ravel [N, C, H, W]
                                [hd idx, nd_at ci (bcast_idx (shape ci) (tl idx)),
                                 nd_at hi (bcast_idx (shape hi) (tl idx)),
                                 nd_at wi (bcast_idx (shape wi) (tl idx))]
                      in acc\<lparr>data := (data acc)[k := data acc ! k
                                                    + nd_at vals (bcast_idx (shape vals) idx)]\<rparr>)
                   A (map (unravel (N # sh)) [0..<prod_list (N # sh)])))
      | _ \<Rightarrow> Inl Unmodelled)"

text \<open>\<open>np.sum(g, axis=(0, 2, 3))\<close> of an array of rank 4.\<close>

definition sum_axes_023 :: "real ndarray \<Rightarrow> py_error + real ndarray" where
  "sum_axes_023 g =
     (case shape g of
        [N, C, H, W] \<Rightarrow>
          Inr (array1 (map (\<lambda>c. \<Sum>n\<leftarrow>[0..<N]. \<Sum>h\<leftarrow>[0..<H]. \<Sum>w\<leftarrow>[0..<W]. at4 g n c h w)
                        [0..<C]))
      | _ \<Rightarrow> Inl Unmodelled)"

text \<open>
  \<open>np.amax(x, axis=(2, 3))\<close> and \<open>np.mean(x, axis=(2, 3))\<close> of an array of rank 4. The
  maximum of an empty window raises; the mean of an empty window is \<open>nan\<close>.
\<close>

definition window_values :: "'a ndarray \<Rightarrow> nat \<Rightarrow> nat \<Rightarrow> 'a list" where
  "window_values x n c =
     concat (map (\<lambda>h. map (\<lambda>w. at4 x n c h w) [0..<shape x ! 3]) [0..<shape x ! 2])"

definition amax_hw :: "real ndarray \<Rightarrow> py_error + real ndarray" where
  "amax_hw x =
     (if shape x ! 2 = 0 \<or> shape x ! 3 = 0 then Inl ValueError
      else Inr (tab2 (shape x ! 0) (shape x ! 1) (\<lambda>n c. Max (set (window_values x n c)))))"

definition mean_hw :: "real ndarray \<Rightarrow> py_error + real ndarray" where
  "mean_hw x =
     (if shape x ! 2 = 0 \<or> shape x ! 3 = 0 then Inl Unmodelled
      else Inr (tab2 (shape x ! 0) (shape x ! 1)
             (\<lambda>n c. sum_list (window_values x n c) / real (shape x ! 2 * shape x ! 3))))"

text \<open>\<open>output[i, j] = m\<close> on an array of rank 4, with \<open>m\<close> of the shape of \<open>output[i, j]\<close>.\<close>

definition assign_ij :: "real ndarray \<Rightarrow> nat \<Rightarrow> nat \<Rightarrow> real ndarray \<Rightarrow> py_error + real ndarray"
  where
  "assign_ij output i j m =
     (if shape output ! 0 \<le> i \<or> shape output ! 1 \<le> j then Inl IndexError
      else if bshape (drop 2 (shape output)) (shape m) \<noteq> Inr (drop 2 (shape output))
      then Inl ValueError
      else Inr (tab4 (shape output ! 0) (shape output ! 1) (shape output ! 2) (shape output ! 3)
             (\<lambda>a b n c. if a = i \<and> b = j then nd_at m (bcast_idx (shape m) [n, c])
                          else at4 output a b n c)))"

text \<open>
  \<open>np.max(x, axis=2, keepdims=True)\<close> of an array of rank 5, \<open>g[:, :, np.newaxis, :, :]\<close> of
  an array of rank 4, and \<open>np.repeat(x, r, axis=2)\<close> of an array of rank 5.
\<close>

definition amax_axis2_keep :: "real ndarray \<Rightarrow> py_error + real ndarray" where
  "amax_axis2_keep x =
     (case shape x of
        [B, C, M, H, W] \<Rightarrow>
          if M = 0 then Inl ValueError
          else Inr (tab5 B C 1 H W (\<lambda>n c q h w. Max (set (map (\<lambda>k. at5 x n c k h w) [0..<M]))))
      | _ \<Rightarrow> Inl Unmodelled)"

definition newaxis2 :: "'a ndarray \<Rightarrow> py_error + 'a ndarray" where
  "newaxis2 g =
     (case shape g of
        [B, C, H, W] \<Rightarrow> Inr \<lparr>shape = [B, C, 1, H, W], data = data g\<rparr>
      | _ \<Rightarrow> if length (shape g) < 4 then Inl IndexError else Inl Unmodelled)"

definition repeat_axis2 :: "'a ndarray \<Rightarrow> nat \<Rightarrow> py_error + 'a ndarray" where
  "repeat_axis2 x r =
     (case shape x of
        [B, C, M, H, W] \<Rightarrow> Inr (tab5 B C (M * r) H W (\<lambda>n c q h w. at5 x n c (q div r) h w))
      | _ \<Rightarrow> Inl Unmodelled)"

text \<open>\<open>x[:, :, :, idx]\<close> of an array of rank 4.\<close>

definition take_last4 :: "'a ndarray \<Rightarrow> nat \<Rightarrow> py_error + 'a ndarray" where
  "take_last4 x idx =
     (case shape x of
        [B, C, M, Q] \<Rightarrow>
          if Q \<le> idx then Inl IndexError else Inr (tab3 B C M (\<lambda>n c q. at4 x n c q idx))
      | _ \<Rightarrow> Inl Unmodelled)"

text \<open>
  \<open>A[:, :, h0:h1, w0:w1] += v\<close> on an array of rank 4: \<open>v\<close> must broadcast to the shape
  of the slice; the elements of the slice are added to, the others are kept.
\<close>

definition iadd_slice4 ::
  "real ndarray \<Rightarrow> nat \<Rightarrow> nat \<Rightarrow> nat \<Rightarrow> nat \<Rightarrow> real ndarray \<Rightarrow> py_error + real ndarray" where
  "iadd_slice4 A h0 h1 w0 w1 v =
     (let sl = shape (slice4 A h0 h1 w0 w1) in
      if bshape sl (shape v) \<noteq> Inr sl then Inl ValueError
      else Inr (tab4 (shape A ! 0) (shape A ! 1) (shape A ! 2) (shape A ! 3)
             (\<lambda>n c h w.
                if h0 \<le> h \<and> h < h1 \<and> w0 \<le> w \<and> w < w1
                then at4 A n c h w + nd_at v (bcast_idx (shape v) [n, c, h - h0, w - w0])
                else at4 A n c h w)))"

section \<open>Convolution and pooling, the classes of operators.py\<close>

text \<open>
  The layer configurations. The sizes, the stride and the padding are counts of pixels.
\<close>

record conv_params =
  kernel_h :: nat
  kernel_w :: nat
  conv_stride :: nat
  conv_pad :: nat
  in_channel :: nat
  out_channel :: nat

record pool_params =
  pool_type :: string
  pool_height :: nat
  pool_width :: nat
  pool_stride :: nat
  pool_pad :: nat

text \<open>\<open>get_output_size(n, k, p, s) = int(np.floor((n + p - k) / s) + 1)\<close>\<close>

definition get_output_size :: "nat \<Rightarrow> nat \<Rightarrow> nat \<Rightarrow> nat \<Rightarrow> py_error + int" where
  "get_output_size n k p s =
     (if s = 0 then Inl ZeroDivisionError
      else Inr (\<lfloor>(real n + real p - real k) / real s\<rfloor> + 1))"

text \<open>\<open>conv.get_im2col_data_indexes\<close>\<close>

definition get_im2col_data_indexes ::
  "nat \<Rightarrow> nat \<Rightarrow> nat \<Rightarrow> nat \<Rightarrow> nat \<Rightarrow> nat \<Rightarrow> nat \<Rightarrow> nat \<Rightarrow> nat \<Rightarrow> nat
     \<Rightarrow> py_error + nat ndarray \<times> nat ndarray \<times> nat ndarray" where
  "get_im2col_data_indexes N c_i n_h n_w k_h k_w p s o_h o_w =
     (let channel_idxs = col_vector (np_repeat (np_arange c_i) (k_h * k_w));
          k_height_idxs = np_tile (np_repeat (np_arange k_h) k_w) c_i;
          height_offsets = map (\<lambda>x. x * s) (np_repeat (np_arange o_h) o_w)
      in
      thenE (broadcast_op (+) (col_vector k_height_idxs) (row_vector height_offsets))
        (\<lambda>height_idxs.
      let k_width_idxs = np_tile (np_arange k_w) (k_h * c_i);
          width_offsets = map (\<lambda>x. x * s) (np_tile (np_arange o_w) o_h)
      in
      thenE (broadcast_op (+) (col_vector k_width_idxs) (row_vector width_offsets))
        (\<lambda>width_ixds.
      Inr (channel_idxs, height_idxs, width_ixds))))"

text \<open>
  The output sizes of \<open>conv.img2col\<close> and \<open>conv.col2img\<close>. What numpy does with the
  negative repeat counts that a negative output size leads to is not modelled.
\<close>

definition output_sizes ::
  "nat \<Rightarrow> nat \<Rightarrow> nat \<Rightarrow> nat \<Rightarrow> nat \<Rightarrow> nat \<Rightarrow> py_error + nat \<times> nat" where
  "output_sizes n_h n_w k_h k_w p s =
     thenE (get_output_size n_h k_h p s) (\<lambda>o_h.
     thenE (get_output_size n_w k_w p s) (\<lambda>o_w.
       if o_h < 0 \<or> o_w < 0 then Inl Unmodelled else Inr (nat o_h, nat o_w)))"

text \<open>\<open>conv.img2col\<close>\<close>

definition conv_img2col ::
  "real ndarray \<Rightarrow> nat \<Rightarrow> nat \<Rightarrow> nat \<Rightarrow> nat \<Rightarrow> nat \<Rightarrow> nat \<Rightarrow> nat \<Rightarrow> nat
     \<Rightarrow> py_error + real ndarray \<times> nat \<times> nat" where
  "conv_img2col X N c_i n_h n_w k_h k_w p s =
     thenE (output_sizes n_h n_w k_h k_w p s) (\<lambda>(o_h, o_w).
     thenE (get_im2col_data_indexes N c_i n_h n_w k_h k_w p s o_h o_w)
       (\<lambda>(channel_idxs, height_idxs, width_ixds).
     thenE (fancy_index4 X channel_idxs height_idxs width_ixds) (\<lambda>X_hat_batch.
     thenE (transposeE X_hat_batch [1, 2, 0]) (\<lambda>t.
     thenE (np_reshape t [int (k_h * k_w * c_i), - 1]) (\<lambda>X_hat.
       Inr (X_hat, o_h, o_w))))))"

text \<open>\<open>conv.forward\<close>\<close>

definition conv_forward ::
  "conv_params \<Rightarrow> real ndarray \<Rightarrow> real ndarray \<Rightarrow> real ndarray \<Rightarrow> py_error + real ndarray"
  where
  "conv_forward cp input weights bias =
     (case shape input of
        [batch, in_chan, in_height, in_width] \<Rightarrow>
          (let p = conv_pad cp div 2 in
           thenE (np_pad4 input (p, p) (p, p)) (\<lambda>X_pad.
           thenE (conv_img2col X_pad batch in_chan in_height in_width (kernel_h cp)
                    (kernel_w cp) (conv_pad cp) (conv_stride cp))
             (\<lambda>(X_hat, out_height, out_width).
           thenE (np_reshape weights
                    [int (out_channel cp), int (in_chan * kernel_h cp * kernel_w cp)]) (\<lambda>W.
           thenE (np_reshape
                    (array1 (np_repeat (data bias) (batch * out_height * out_width)))
                    [int (out_channel cp), - 1]) (\<lambda>b.
           thenE (np_matmul W X_hat) (\<lambda>WX.
           thenE (broadcast_op (+) WX b) (\<lambda>Y.
           thenE (np_reshape Y [int (out_channel cp), int out_height, int out_width, int batch])
             (\<lambda>output.
           transposeE output [3, 0, 1, 2]))))))))
      | _ \<Rightarrow> Inl ValueError)"

text \<open>\<open>conv.col2img\<close>\<close>

definition conv_col2img ::
  "real ndarray \<Rightarrow> nat \<Rightarrow> nat \<Rightarrow> nat \<Rightarrow> nat \<Rightarrow> nat \<Rightarrow> nat \<Rightarrow> nat \<Rightarrow> nat
     \<Rightarrow> py_error + real ndarray" where
  "conv_col2img dX_hat N c_i n_h n_w k_h k_w p s =
     thenE (output_sizes n_h n_w k_h k_w p s) (\<lambda>(o_h, o_w).
     let dX_pad = np_zeros [N, c_i, n_h + p, n_w + p] in
     thenE (get_im2col_data_indexes N c_i n_h n_w k_h k_w p s o_h o_w)
       (\<lambda>(channel_idxs, height_idxs, width_ixds).
     thenE (np_reshape dX_hat [int (c_i * k_h * k_w), - 1, int N]) (\<lambda>r.
     thenE (transposeE r [2, 0, 1]) (\<lambda>dX_hat_batch.
     thenE (add_at4 dX_pad channel_idxs height_idxs width_ixds dX_hat_batch) (\<lambda>dX_pad.
       if p \<noteq> 0 then Inr (slice4 dX_pad p (n_h + p - p) p (n_w + p - p))
       else Inr dX_pad)))))"

text \<open>\<open>conv.backward\<close>\<close>

definition conv_backward ::
  "conv_params \<Rightarrow> real ndarray \<Rightarrow> real ndarray \<Rightarrow> real ndarray \<Rightarrow> real ndarray
     \<Rightarrow> py_error + real ndarray \<times> real ndarray \<times> real ndarray" where
  "conv_backward cp out_grad input weights bias =
     (case shape input of
        [batch, in_chan, in_height, in_width] \<Rightarrow>
          (let p = conv_pad cp div 2 in
           thenE (np_pad4 input (p, p) (p, p)) (\<lambda>X_pad.
           thenE (conv_img2col X_pad batch in_chan in_height in_width (kernel_h cp)
                    (kernel_w cp) (conv_pad cp) (conv_stride cp))
             (\<lambda>(X_hat, out_height, out_width).
           thenE (np_reshape weights
                    [int (out_channel cp), int (in_chan * kernel_h cp * kernel_w cp)]) (\<lambda>W.
           thenE (transposeE out_grad [1, 2, 3, 0]) (\<lambda>t.
           thenE (np_reshape t [int (out_channel cp), int (batch * out_height * out_width)])
             (\<lambda>out_grad_col.
           thenE (np_matmul (transpose2 W) out_grad_col) (\<lambda>dX_hat.
           thenE (conv_col2img dX_hat batch in_chan in_height in_width (kernel_h cp)
                    (kernel_w cp) (conv_pad cp) (conv_stride cp)) (\<lambda>in_grad.
           thenE (np_matmul out_grad_col (transpose2 X_hat)) (\<lambda>wg.
           thenE (np_reshape wg [int (out_channel cp), int in_chan, int (kernel_h cp),
                                 int (kernel_w cp)]) (\<lambda>w_grad.
           thenE (sum_axes_023 out_grad) (\<lambda>b_grad.
             Inr (in_grad, w_grad, b_grad))))))))))))
      | _ \<Rightarrow> Inl ValueError)"

text \<open>The body of the loops of \<open>pool.forward\<close>, for the output position \<open>(i, j)\<close>.\<close>

definition pool_forward_step ::
  "pool_params \<Rightarrow> real ndarray \<Rightarrow> real ndarray \<Rightarrow> nat \<times> nat \<Rightarrow> py_error + real ndarray" where
  "pool_forward_step pp X_pad output ij =
     (case ij of (i, j) \<Rightarrow>
        let height_offset = i * pool_stride pp;
            width_offset = j * pool_stride pp;
            receptive_fields = slice4 X_pad height_offset (height_offset + pool_height pp)
                                 width_offset (width_offset + pool_width pp)
        in
        if pool_type pp = ''max'' then
          thenE (amax_hw receptive_fields) (\<lambda>m. assign_ij output i j m)
        else if pool_type pp = ''avg'' then
          thenE (mean_hw receptive_fields) (\<lambda>m. assign_ij output i j m)
        else Inl TypeError)"

text \<open>
  \<open>pool.forward\<close>: the two nested loops visit the output positions row by row.
\<close>

definition pool_forward :: "pool_params \<Rightarrow> real ndarray \<Rightarrow> py_error + real ndarray" where
  "pool_forward pp input =
     (case shape input of
        [batch, in_chan, in_height, in_width] \<Rightarrow>
          thenE (get_output_size in_height (pool_height pp) (pool_pad pp) (pool_stride pp))
            (\<lambda>out_height.
          thenE (get_output_size in_width (pool_width pp) (pool_pad pp) (pool_stride pp))
            (\<lambda>out_width.
          let p = pool_pad pp div 2 in
          thenE (np_pad4 input (p, p) (p, p)) (\<lambda>X_pad.
          if out_height < 0 \<or> out_width < 0 then Inl ValueError
          else
            thenE (foldE (pool_forward_step pp X_pad)
                     (np_zeros [nat out_height, nat out_width, batch, in_chan])
                     (List.product [0..<nat out_height] [0..<nat out_width]))
              (\<lambda>output. transposeE output [2, 3, 0, 1]))))
      | _ \<Rightarrow> Inl ValueError)"

section \<open>Patch extraction and pooling backward\<close>

text \<open>
  \<open>img2col\<close> of operations.py. The class \<open>pool\<close> imports its \<open>img2col\<close> from
  \<open>nn.functional\<close>, which is not among the sources; it is taken to be this one.
\<close>

definition img2col ::
  "real ndarray \<Rightarrow> nat list \<Rightarrow> nat list \<Rightarrow> nat \<Rightarrow> nat \<Rightarrow> py_error + real ndarray" where
  "img2col dat h_indices w_indices k_h k_w =
     (case shape dat of
        [batch, C, H, W] \<Rightarrow>
          thenE (mapE (\<lambda>x. np_reshape (slice4 dat (fst x) (fst x + k_h) (snd x) (snd x + k_w))
                              [int batch, - 1])
                   (List.product h_indices w_indices)) (\<lambda>cols.
          np_stack_last cols)
      | _ \<Rightarrow> Inl Unmodelled)"

text \<open>
  The gradient of the patches, shared by \<open>pool.backward\<close> and \<open>pool_backward\<close>: the
  equality mask of the maximum times the output gradient, or the scaled output
  gradient repeated over the window. With another pooling type the variable
  \<open>input_pool_grad\<close> is never bound.
\<close>

definition pool_patch_grad ::
  "string \<Rightarrow> nat \<Rightarrow> nat \<Rightarrow> real ndarray \<Rightarrow> real ndarray \<Rightarrow> py_error + real ndarray" where
  "pool_patch_grad ptype p_h p_w input_pool out_grad =
     (if ptype = ''max'' then
        thenE (amax_axis2_keep input_pool) (\<lambda>mx.
        thenE (broadcast_op (\<lambda>x m. x = m) input_pool mx) (\<lambda>mask.
        thenE (newaxis2 out_grad) (\<lambda>g.
          broadcast_op (\<lambda>b y. (if b then 1 else 0) * y) mask g)))
      else if ptype = ''avg'' then
        (if p_h * p_w = 0 then Inl ZeroDivisionError
         else
           thenE (newaxis2 out_grad) (\<lambda>g.
           thenE (repeat_axis2 g (p_h * p_w)) (\<lambda>r.
             Inr (nd_map (\<lambda>y. (1 / real (p_h * p_w)) * y) r))))
      else Inl UnboundLocalError)"

text \<open>
  The scatter loop shared by \<open>pool.backward\<close> and \<open>pool_backward\<close>: patch \<open>idx\<close> is added
  to the window at \<open>(i, j)\<close> of the padded gradient.
\<close>

definition pool_scatter_step ::
  "nat \<Rightarrow> nat \<Rightarrow> nat \<Rightarrow> nat \<Rightarrow> real ndarray \<Rightarrow> real ndarray \<Rightarrow> nat \<times> nat \<times> nat
     \<Rightarrow> py_error + real ndarray" where
  "pool_scatter_step batch C p_h p_w input_pool_grad input_pad_grad step =
     (case step of (idx, i, j) \<Rightarrow>
        thenE (take_last4 input_pool_grad idx) (\<lambda>col.
        thenE (np_reshape col [int batch, int C, int p_h, int p_w]) (\<lambda>patch.
          iadd_slice4 input_pad_grad i (i + p_h) j (j + p_w) patch)))"

definition pool_scatter ::
  "nat \<Rightarrow> nat \<Rightarrow> nat \<Rightarrow> nat \<Rightarrow> real ndarray \<Rightarrow> real ndarray \<Rightarrow> nat list \<Rightarrow> nat list
     \<Rightarrow> py_error + real ndarray" where
  "pool_scatter batch C p_h p_w input_pool_grad zeros recep_fields_h recep_fields_w =
     foldE (pool_scatter_step batch C p_h p_w input_pool_grad) zeros
       (List.enumerate 0 (List.product recep_fields_h recep_fields_w))"

text \<open>\<open>pool.backward\<close> of operators.py: \<open>pad\<close> is the total padding of an axis.\<close>

definition pool_backward ::
  "pool_params \<Rightarrow> real ndarray \<Rightarrow> real ndarray \<Rightarrow> py_error + real ndarray" where
  "pool_backward pp out_grad input =
     (case shape input of
        [batch, in_chan, in_height, in_width] \<Rightarrow>
          thenE (py_floordiv (int in_height - int (pool_height pp) + int (pool_pad pp))
                   (int (pool_stride pp))) (\<lambda>qh.
          thenE (py_floordiv (int in_width - int (pool_width pp) + int (pool_pad pp))
                   (int (pool_stride pp))) (\<lambda>qw.
          let out_height = 1 + qh; out_width = 1 + qw;
              pad_scheme = (pool_pad pp div 2, pool_pad pp - pool_pad pp div 2)
          in
          thenE (np_pad4 input pad_scheme pad_scheme) (\<lambda>input_pad.
          let recep_fields_h = map (\<lambda>i. pool_stride pp * i) [0..<nat out_height];
              recep_fields_w = map (\<lambda>i. pool_stride pp * i) [0..<nat out_width]
          in
          thenE (img2col input_pad recep_fields_h recep_fields_w (pool_height pp)
                   (pool_width pp)) (\<lambda>cols.
          thenE (np_reshape cols [int batch, int in_chan, - 1, out_height, out_width])
            (\<lambda>input_pool.
          thenE (pool_patch_grad (pool_type pp) (pool_height pp) (pool_width pp) input_pool
                   out_grad) (\<lambda>g.
          thenE (np_reshape g [int batch, int in_chan, - 1, out_height * out_width])
            (\<lambda>input_pool_grad.
          thenE (pool_scatter batch in_chan (pool_height pp) (pool_width pp) input_pool_grad
                   (np_zeros (shape input_pad)) recep_fields_h recep_fields_w)
            (\<lambda>input_pad_grad.
          Inr (slice4 input_pad_grad (pool_pad pp) (pool_pad pp + in_height)
                 (pool_pad pp) (pool_pad pp + in_width))))))))))
      | _ \<Rightarrow> Inl ValueError)"

section \<open>Convolution and pooling, the free functions of operations.py\<close>

text \<open>
  In the free functions \<open>pad\<close> is the padding on each side, and \<open>np.pad\<close> is called with
  \<open>pad_width=(pad,)\<close>, which pads every axis.
\<close>

text \<open>\<open>conv_forward\<close> of operations.py\<close>

definition conv_forward_fn ::
  "real ndarray \<Rightarrow> real ndarray \<Rightarrow> real ndarray \<Rightarrow> conv_params \<Rightarrow> py_error + real ndarray"
  where
  "conv_forward_fn input weights bias cp =
     (case shape input of
        [batch, in_chan, in_height, in_width] \<Rightarrow>
          thenE (py_floordiv (int in_height - int (kernel_h cp) + 2 * int (conv_pad cp))
                   (int (conv_stride cp))) (\<lambda>qh.
          thenE (py_floordiv (int in_width - int (kernel_w cp) + 2 * int (conv_pad cp))
                   (int (conv_stride cp))) (\<lambda>qw.
          let out_height = 1 + qh; out_width = 1 + qw in
          if out_height < 0 \<or> out_width < 0 then Inl ValueError
          else
            let input_pad = np_pad_all input (conv_pad cp);
                recep_fields_h = map (\<lambda>i. conv_stride cp * i) [0..<nat out_height];
                recep_fields_w = map (\<lambda>i. conv_stride cp * i) [0..<nat out_width]
            in
            thenE (img2col input_pad recep_fields_h recep_fields_w (kernel_h cp) (kernel_w cp))
              (\<lambda>input_conv.
            thenE (mapE (\<lambda>x. thenE (np_reshape weights [int (out_channel cp), - 1]) (\<lambda>W.
                              thenE (np_matmul W x) (\<lambda>y.
                              thenE (np_reshape bias [- 1, 1]) (\<lambda>b.
                                broadcast_op (+) y b))))
                     (unstack0 input_conv)) (\<lambda>outs.
            thenE (np_stack0 outs) (\<lambda>output.
              np_reshape output [int batch, int (out_channel cp), out_height, out_width])))))
      | _ \<Rightarrow> Inl ValueError)"

text \<open>\<open>pool_forward\<close> of operations.py\<close>

text \<open>
  \<open>np.max(x, axis=2)\<close> and \<open>np.average(x, axis=2)\<close> of an array of rank 5; the average over
  an empty axis is \<open>nan\<close>.
\<close>

definition amax_axis2 :: "real ndarray \<Rightarrow> py_error + real ndarray" where
  "amax_axis2 x =
     (case shape x of
        [B, C, M, H, W] \<Rightarrow>
          if M = 0 then Inl ValueError
          else Inr (tab4 B C H W (\<lambda>n c h w. Max (set (map (\<lambda>k. at5 x n c k h w) [0..<M]))))
      | _ \<Rightarrow> Inl Unmodelled)"

definition average_axis2 :: "real ndarray \<Rightarrow> py_error + real ndarray" where
  "average_axis2 x =
     (case shape x of
        [B, C, M, H, W] \<Rightarrow>
          if M = 0 then Inl Unmodelled
          else Inr (tab4 B C H W (\<lambda>n c h w. (\<Sum>k\<leftarrow>[0..<M]. at5 x n c k h w) / real M))
      | _ \<Rightarrow> Inl Unmodelled)"

definition pool_forward_fn :: "real ndarray \<Rightarrow> pool_params \<Rightarrow> py_error + real ndarray" where
  "pool_forward_fn input pp =
     (case shape input of
        [batch, in_chan, in_height, in_width] \<Rightarrow>
          thenE (py_floordiv (int in_height - int (pool_height pp) + 2 * int (pool_pad pp))
                   (int (pool_stride pp))) (\<lambda>qh.
          thenE (py_floordiv (int in_width - int (pool_width pp) + 2 * int (pool_pad pp))
                   (int (pool_stride pp))) (\<lambda>qw.
          let out_height = 1 + qh; out_width = 1 + qw;
              input_pad = np_pad_all input (pool_pad pp);
              recep_fields_h = map (\<lambda>i. pool_stride pp * i) [0..<nat out_height];
              recep_fields_w = map (\<lambda>i. pool_stride pp * i) [0..<nat out_width]
          in
          thenE (img2col input_pad recep_fields_h recep_fields_w (pool_height pp)
                   (pool_width pp)) (\<lambda>cols.
          thenE (np_reshape cols [int batch, int in_chan, - 1, out_height, out_width])
            (\<lambda>input_pool.
          if pool_type pp = ''max'' then amax_axis2 input_pool
          else if pool_type pp = ''avg'' then average_axis2 input_pool
          else Inl ValueError))))
      | _ \<Rightarrow> Inl ValueError)"

text \<open>\<open>pool_backward\<close> of operations.py\<close>

definition pool_backward_fn ::
  "real ndarray \<Rightarrow> real ndarray \<Rightarrow> pool_params \<Rightarrow> py_error + real ndarray" where
  "pool_backward_fn out_grad input pp =
     (case shape input of
        [batch, in_chan, in_height, in_width] \<Rightarrow>
          thenE (py_floordiv (int in_height - int (pool_height pp) + 2 * int (pool_pad pp))
                   (int (pool_stride pp))) (\<lambda>qh.
          thenE (py_floordiv (int in_width - int (pool_width pp) + 2 * int (pool_pad pp))
                   (int (pool_stride pp))) (\<lambda>qw.
          let out_height = 1 + qh; out_width = 1 + qw;
              input_pad = np_pad_all input (pool_pad pp);
              recep_fields_h = map (\<lambda>i. pool_stride pp * i) [0..<nat out_height];
              recep_fields_w = map (\<lambda>i. pool_stride pp * i) [0..<nat out_width]
          in
          thenE (img2col input_pad recep_fields_h recep_fields_w (pool_height pp)
                   (pool_width pp)) (\<lambda>cols.
          thenE (np_reshape cols [int batch, int in_chan, - 1, out_height, out_width])
            (\<lambda>input_pool.
          thenE (pool_patch_grad (pool_type pp) (pool_height pp) (pool_width pp) input_pool
                   out_grad) (\<lambda>g.
          thenE (np_reshape g [int batch, int in_chan, - 1, out_height * out_width])
            (\<lambda>input_pool_grad.
          thenE (pool_scatter batch in_chan (pool_height pp) (pool_width pp) input_pool_grad
                   (np_zeros (shape input_pad)) recep_fields_h recep_fields_w)
            (\<lambda>input_pad_grad.
          Inr (slice4 input_pad_grad (pool_pad pp) (pool_pad pp + in_height)
                 (pool_pad pp) (pool_pad pp + in_width)))))))))
      | _ \<Rightarrow> Inl ValueError)"

section \<open>Dropout\<close>

text \<open>
  numpy's global random generator is not among the sources. It is taken as a parameter:
  the state that \<open>np.random.seed(k)\<close> sets for an integer \<open>k\<close>, and the draws of
  \<open>np.random.random_sample\<close> from a state together with the state it leaves.
  \<open>np.random.seed(None)\<close> takes a state from the operating system, the argument
  \<open>entropy\<close> of the operators; an integer seed outside \<open>[0, 2^32)\<close> is refused.
\<close>

record 'g rng =
  rng_seed :: "int \<Rightarrow> 'g"
  rng_sample :: "'g \<Rightarrow> nat \<Rightarrow> (nat \<Rightarrow> real) \<times> 'g"

definition np_random_seed :: "'g rng \<Rightarrow> 'g \<Rightarrow> int option \<Rightarrow> py_error + 'g" where
  "np_random_seed R entropy sd =
     (case sd of
        None \<Rightarrow> Inr entropy
      | Some k \<Rightarrow> if k < 0 \<or> 2 ^ 32 \<le> k then Inl ValueError else Inr (rng_seed R k))"

definition np_random_sample :: "'g rng \<Rightarrow> 'g \<Rightarrow> nat list \<Rightarrow> real ndarray \<times> 'g" where
  "np_random_sample R g sh =
     (case rng_sample R g (prod_list sh) of
        (draw, g') \<Rightarrow> (\<lparr>shape = sh, data = map draw [0..<prod_list sh]\<rparr>, g'))"

text \<open>An elementwise operation on two arrays of one shape.\<close>

definition nd_zip :: "('a \<Rightarrow> 'b \<Rightarrow> 'c) \<Rightarrow> 'a ndarray \<Rightarrow> 'b ndarray \<Rightarrow> 'c ndarray" where
  "nd_zip f a b = \<lparr>shape = shape a, data = map2 f (data a) (data b)\<rparr>"

text \<open>
  \<open>dropout_forward(input, rate, training, seed)\<close> of operations.py. The result is the
  pair of the output and the mask, or the exception; the second component is the state
  of the global generator after the call.
\<close>

definition dropout_forward_fn ::
  "'g rng \<Rightarrow> 'g \<Rightarrow> 'g \<Rightarrow> real ndarray \<Rightarrow> real \<Rightarrow> bool \<Rightarrow> int option
     \<Rightarrow> (py_error + real ndarray \<times> int ndarray option) \<times> 'g" where
  "dropout_forward_fn R entropy g input r is_training sd =
     (if is_training then
        if 1 - r = 0 then (Inl ZeroDivisionError, g)
        else
          let scale = 1 / (1 - r) in
          case np_random_seed R entropy sd of
            Inl e \<Rightarrow> (Inl e, g)
          | Inr g1 \<Rightarrow>
              (case np_random_sample R g1 (shape input) of
                 (p, g2) \<Rightarrow>
                   let m = nd_map (\<lambda>v. if r \<le> v then 1 else 0) p;
                       output = nd_map (\<lambda>v. v * scale) (nd_zip (\<lambda>v k. v * real_of_int k) input m)
                   in (Inr (output, Some m), g2))
      else (Inr (input, None), g))"

text \<open>\<open>dropout_backward(out_grad, input, rate, mask, training)\<close> of operations.py\<close>

definition dropout_backward_fn ::
  "real ndarray \<Rightarrow> real ndarray \<Rightarrow> real \<Rightarrow> int ndarray option \<Rightarrow> bool
     \<Rightarrow> py_error + real ndarray" where
  "dropout_backward_fn out_grad input r m is_training =
     (if is_training then
        if 1 - r = 0 then Inl ZeroDivisionError
        else
          (case m of
             None \<Rightarrow> Inl TypeError
           | Some mk \<Rightarrow> broadcast_op (*) (nd_map (\<lambda>k. (1 / (1 - r)) * real_of_int k) mk) out_grad)
      else Inr out_grad)"

text \<open>The class \<open>dropout\<close> of operators.py: the object with its four attributes.\<close>

record dropout =
  rate :: real
  seed :: "int option"
  training :: bool
  mask :: "real ndarray option"

definition dropout_init :: "real \<Rightarrow> bool \<Rightarrow> int option \<Rightarrow> dropout" where
  "dropout_init r is_training sd = \<lparr>rate = r, seed = sd, training = is_training, mask = None\<rparr>"

text \<open>
  \<open>dropout.forward\<close>: the result is the output or the exception, the object after the
  call, and the state of the global generator after the call.
\<close>

definition dropout_forward ::
  "'g rng \<Rightarrow> 'g \<Rightarrow> 'g \<Rightarrow> dropout \<Rightarrow> real ndarray \<Rightarrow> (py_error + real ndarray) \<times> dropout \<times> 'g"
  where
  "dropout_forward R entropy g self input =
     (if training self then
        if 1 - rate self = 0 then (Inl ZeroDivisionError, self, g)
        else
          let scale = 1 / (1 - rate self) in
          case np_random_seed R entropy (seed self) of
            Inl e \<Rightarrow> (Inl e, self, g)
          | Inr g1 \<Rightarrow>
              (case np_random_sample R g1 (shape input) of
                 (p, g2) \<Rightarrow>
                   let m0 = nd_map (\<lambda>v. if rate self \<le> v then 1 else (0::int)) p;
                       m1 = nd_map (\<lambda>k. real_of_int k * scale) m0;
                       output = nd_zip (*) input m1
                   in (Inr output, self\<lparr>mask := Some m1\<rparr>, g2))
      else (Inr input, self, g))"

text \<open>\<open>dropout.backward\<close>\<close>

definition dropout_backward :: "dropout \<Rightarrow> real ndarray \<Rightarrow> real ndarray \<Rightarrow> py_error + real ndarray"
  where
  "dropout_backward self out_grad input =
     (if training self then
        (case mask self of
           None \<Rightarrow> Inl TypeError
         | Some m \<Rightarrow> broadcast_op (*) out_grad m)
      else Inr out_grad)"

text \<open>The seeds that \<open>np.random.seed\<close> accepts.\<close>

definition valid_seed :: "int option \<Rightarrow> bool" where
  "valid_seed sd = (case sd of None \<Rightarrow> True | Some k \<Rightarrow> 0 \<le> k \<and> k < 2 ^ 32)"

text \<open>A generator for examples: every draw is 3/4.\<close>

definition const_rng :: "nat rng" where
  "const_rng = \<lparr>rng_seed = (\<lambda>k. 0), rng_sample = (\<lambda>g n. (\<lambda>i. 3 / 4, g + n))\<rparr>"

text \<open>A generator whose draws depend on its state, which counts the draws.\<close>

definition step_rng :: "nat rng" where
  "step_rng = \<lparr>rng_seed = (\<lambda>k. 0), rng_sample = (\<lambda>g n. (\<lambda>i. real g / 2, g + n))\<rparr>"

section \<open>Softmax cross entropy\<close>

definition eps :: real where
  "eps = 1 / 10 ^ 12"

text \<open>
  \<open>np.max(x, axis=1, keepdims=True)\<close> and \<open>np.sum(x, axis=1, keepdims=True)\<close> of a
  two-dimensional array.
\<close>

definition amax_axis1_keep :: "real ndarray \<Rightarrow> py_error + real ndarray" where
  "amax_axis1_keep x =
     (case shape x of
        [B, C] \<Rightarrow>
          if C = 0 then Inl ValueError
          else Inr (tab2 B 1 (\<lambda>i j. Max (set (map (\<lambda>k. at2 x i k) [0..<C]))))
      | _ \<Rightarrow> Inl Unmodelled)"

definition sum_axis1_keep :: "real ndarray \<Rightarrow> py_error + real ndarray" where
  "sum_axis1_keep x =
     (case shape x of
        [B, C] \<Rightarrow> Inr (tab2 B 1 (\<lambda>i j. \<Sum>k\<leftarrow>[0..<C]. at2 x i k))
      | _ \<Rightarrow> Inl Unmodelled)"

text \<open>
  The column that a label selects in a row of \<open>C\<close> entries: Python counts a negative
  index from the end.
\<close>

definition py_index :: "nat \<Rightarrow> int \<Rightarrow> nat" where
  "py_index C l = nat (if l < 0 then l + int C else l)"

definition labels_in_range :: "nat \<Rightarrow> nat \<Rightarrow> int list \<Rightarrow> bool" where
  "labels_in_range B C labels \<longleftrightarrow>
     length labels \<le> B \<and> list_all (\<lambda>l. - int C \<le> l \<and> l < int C) labels"

text \<open>\<open>a[np.arange(batch), labels]\<close> with \<open>batch = len(labels)\<close>, on a two-dimensional array.\<close>

definition take_labels :: "real ndarray \<Rightarrow> int list \<Rightarrow> py_error + real list" where
  "take_labels a labels =
     (case shape a of
        [B, C] \<Rightarrow>
          if \<not> labels_in_range B C labels then Inl IndexError
          else Inr (map (\<lambda>i. at2 a i (py_index C (labels ! i))) [0..<length labels])
      | _ \<Rightarrow> Inl Unmodelled)"

text \<open>\<open>a[np.arange(batch), labels] -= 1\<close> on a two-dimensional array.\<close>

definition sub_one_at_labels :: "real ndarray \<Rightarrow> int list \<Rightarrow> py_error + real ndarray" where
  "sub_one_at_labels a labels =
     (case shape a of
        [B, C] \<Rightarrow>
          if \<not> labels_in_range B C labels then Inl IndexError
          else Inr (tab2 B C (\<lambda>i j. if i < length labels \<and> j = py_index C (labels ! i)
                                    then at2 a i j - 1 else at2 a i j))
      | _ \<Rightarrow> Inl Unmodelled)"

text \<open>
  The statements that \<open>softmax_cross_entropy_forward\<close> and
  \<open>softmax_cross_entropy_backward\<close> share: the logarithms of the probabilities and the
  probabilities.
\<close>

definition softmax_log_probs :: "real ndarray \<Rightarrow> py_error + real ndarray" where
  "softmax_log_probs input =
     thenE (amax_axis1_keep input) (\<lambda>mx.
     thenE (broadcast_op (-) input mx) (\<lambda>input_shift.
     thenE (sum_axis1_keep (nd_map exp input_shift)) (\<lambda>Z.
       broadcast_op (-) input_shift (nd_map (\<lambda>z. ln (z + eps)) Z))))"

text \<open>
  \<open>softmax_cross_entropy_forward\<close> of operations.py. With an empty batch the loss is
  \<open>0 / 0\<close>, which is \<open>nan\<close>.
\<close>

definition softmax_cross_entropy_forward ::
  "real ndarray \<Rightarrow> int list \<Rightarrow> py_error + real \<times> real ndarray" where
  "softmax_cross_entropy_forward input labels =
     (let batch = length labels in
      thenE (softmax_log_probs input) (\<lambda>log_probs.
      let probs = nd_map exp log_probs in
      thenE (take_labels log_probs labels) (\<lambda>picked.
        if batch = 0 then Inl Unmodelled
        else Inr (- 1 * sum_list picked / real batch, probs))))"

text \<open>
  \<open>softmax_cross_entropy_backward\<close> of operations.py. With an empty batch the division
  by \<open>batch\<close> gives \<open>nan\<close> or \<open>inf\<close>.
\<close>

definition softmax_cross_entropy_backward ::
  "real ndarray \<Rightarrow> int list \<Rightarrow> py_error + real ndarray" where
  "softmax_cross_entropy_backward input labels =
     (let batch = length labels in
      thenE (softmax_log_probs input) (\<lambda>log_probs.
      let probs = nd_map exp log_probs in
      thenE (sub_one_at_labels probs labels) (\<lambda>in_grad.
        if batch = 0 then Inl Unmodelled
        else Inr (nd_map (\<lambda>v. v / real batch) in_grad))))"

text \<open>
  The methods of the class \<open>softmax_cross_entropy\<close> of operators.py have the statements of
  the two free functions, line for line.
\<close>

definition sce_forward :: "real ndarray \<Rightarrow> int list \<Rightarrow> py_error + real \<times> real ndarray" where
  "sce_forward input labels =
     (let batch = length labels in
      thenE (softmax_log_probs input) (\<lambda>log_probs.
      let probs = nd_map exp log_probs in
      thenE (take_labels log_probs labels) (\<lambda>picked.
        if batch = 0 then Inl Unmodelled
        else Inr (- 1 * sum_list picked / real batch, probs))))"

definition sce_backward :: "real ndarray \<Rightarrow> int list \<Rightarrow> py_error + real ndarray" where
  "sce_backward input labels =
     (let batch = length labels in
      thenE (softmax_log_probs input) (\<lambda>log_probs.
      let probs = nd_map exp log_probs in
      thenE (sub_one_at_labels probs labels) (\<lambda>in_grad.
        if batch = 0 then Inl Unmodelled
        else Inr (nd_map (\<lambda>v. v / real batch) in_grad))))"

text \<open>
  The loss and the gradient as the specification states them: the probabilities are the
  softmax of the logits shifted by the maximum of their row, with \<open>eps\<close> inside the
  logarithm; the loss is the negative mean of the logarithm of the probability of the
  true class; the gradient is \<open>(probs - one_hot(labels)) / batch\<close>.
\<close>

definition row_max :: "real ndarray \<Rightarrow> nat \<Rightarrow> real" where
  "row_max x i = Max (set (map (\<lambda>k. at2 x i k) [0..<shape x ! 1]))"

definition spec_probs :: "real ndarray \<Rightarrow> real ndarray" where
  "spec_probs x =
     tab2 (shape x ! 0) (shape x ! 1)
       (\<lambda>i j. exp (at2 x i j - row_max x i
                     - ln ((\<Sum>k\<leftarrow>[0..<shape x ! 1]. exp (at2 x i k - row_max x i)) + eps)))"

definition one_hot :: "nat \<Rightarrow> int list \<Rightarrow> real ndarray" where
  "one_hot C labels =
     tab2 (length labels) C (\<lambda>i j. if int j = labels ! i then 1 else 0)"

definition spec_loss :: "real ndarray \<Rightarrow> int list \<Rightarrow> real" where
  "spec_loss x labels =
     - (\<Sum>i\<leftarrow>[0..<length labels]. ln (at2 (spec_probs x) i (nat (labels ! i))))
       / real (length labels)"

definition spec_grad :: "real ndarray \<Rightarrow> int list \<Rightarrow> real ndarray" where
  "spec_grad x labels =
     tab2 (shape x ! 0) (shape x ! 1)
       (\<lambda>i j. (at2 (spec_probs x) i j - at2 (one_hot (shape x ! 1) labels) i j)
               / real (length labels))"

section \<open>Recurrent operators\<close>

text \<open>
  \<open>m[:, a:b]\<close> with bounds that are not negative, and \<open>np.concatenate([a, b, c], axis=-1)\<close>,
  on two-dimensional arrays.
\<close>

definition cols :: "'a ndarray \<Rightarrow> nat \<Rightarrow> nat \<Rightarrow> py_error + 'a ndarray" where
  "cols m a b =
     (case shape m of
        [r, c] \<Rightarrow> Inr (tab2 r (min b c - min a c) (\<lambda>i j. at2 m i (min a c + j)))
      | _ \<Rightarrow> if length (shape m) < 2 then Inl IndexError else Inl Unmodelled)"

definition concatenate3 ::
  "'a ndarray \<Rightarrow> 'a ndarray \<Rightarrow> 'a ndarray \<Rightarrow> py_error + 'a ndarray" where
  "concatenate3 a b c =
     (if length (shape a) \<noteq> 2 \<or> length (shape b) \<noteq> 2 \<or> length (shape c) \<noteq> 2
      then Inl Unmodelled
      else if shape a ! 0 \<noteq> shape b ! 0 \<or> shape a ! 0 \<noteq> shape c ! 0 then Inl ValueError
      else
        let c1 = shape a ! 1; c2 = shape b ! 1; c3 = shape c ! 1 in
        Inr (tab2 (shape a ! 0) (c1 + c2 + c3)
               (\<lambda>i j. if j < c1 then at2 a i j
                        else if j < c1 + c2 then at2 b i (j - c1)
                        else at2 c i (j - c1 - c2))))"

text \<open>
  The statements that \<open>gru.forward\<close> and \<open>gru.backward\<close> share: the three column blocks of
  the two kernels and the three gates. \<open>sigmoid\<close> comes from \<open>nn.functional\<close>, which is
  not among the sources; it is taken as a parameter, a function applied to every
  element. The names \<open>kern\<close> and \<open>kernel_h'\<close> stand for the source's \<open>kernel\<close> and \<open>kernel_h\<close>.
\<close>

definition gru_unpack ::
  "real ndarray \<Rightarrow> real ndarray
     \<Rightarrow> py_error + (real ndarray \<times> real ndarray \<times> real ndarray)
                  \<times> (real ndarray \<times> real ndarray \<times> real ndarray)" where
  "gru_unpack kern recurrent_kernel =
     (case shape kern of
        [in_features, all_units] \<Rightarrow>
          (let units = all_units div 3 in
           thenE (cols kern 0 units) (\<lambda>kernel_z.
           thenE (cols kern units (2 * units)) (\<lambda>kernel_r.
           thenE (cols kern (2 * units) all_units) (\<lambda>kernel_h'.
           thenE (cols recurrent_kernel 0 units) (\<lambda>recurrent_kernel_z.
           thenE (cols recurrent_kernel units (2 * units)) (\<lambda>recurrent_kernel_r.
           thenE (cols recurrent_kernel (2 * units) all_units) (\<lambda>recurrent_kernel_h.
             Inr ((kernel_z, kernel_r, kernel_h'),
                  (recurrent_kernel_z, recurrent_kernel_r, recurrent_kernel_h)))))))))
      | _ \<Rightarrow> Inl ValueError)"

definition gru_gates ::
  "(real \<Rightarrow> real) \<Rightarrow> real ndarray \<Rightarrow> real ndarray
     \<Rightarrow> (real ndarray \<times> real ndarray \<times> real ndarray)
     \<Rightarrow> (real ndarray \<times> real ndarray \<times> real ndarray)
     \<Rightarrow> py_error + real ndarray \<times> real ndarray \<times> real ndarray" where
  "gru_gates sigmoid x prev_h ks rks =
     (case (ks, rks) of
        ((kernel_z, kernel_r, kernel_h'),
         (recurrent_kernel_z, recurrent_kernel_r, recurrent_kernel_h)) \<Rightarrow>
          thenE (np_matmul x kernel_z) (\<lambda>a.
          thenE (np_matmul prev_h recurrent_kernel_z) (\<lambda>b.
          thenE (broadcast_op (+) a b) (\<lambda>s.
          let x_z = nd_map sigmoid s in
          thenE (np_matmul x kernel_r) (\<lambda>a.
          thenE (np_matmul prev_h recurrent_kernel_r) (\<lambda>b.
          thenE (broadcast_op (+) a b) (\<lambda>s.
          let x_r = nd_map sigmoid s in
          thenE (np_matmul x kernel_h') (\<lambda>a.
          thenE (broadcast_op (*) x_r prev_h) (\<lambda>rp.
          thenE (np_matmul rp recurrent_kernel_h) (\<lambda>b.
          thenE (broadcast_op (+) a b) (\<lambda>s.
          let x_h = nd_map tanh s in
          Inr (x_z, x_r, x_h))))))))))))"

text \<open>\<open>gru.forward\<close>\<close>

definition gru_forward ::
  "(real \<Rightarrow> real) \<Rightarrow> real ndarray \<Rightarrow> real ndarray \<Rightarrow> real ndarray \<Rightarrow> real ndarray
     \<Rightarrow> py_error + real ndarray" where
  "gru_forward sigmoid x prev_h kern recurrent_kernel =
     thenE (gru_unpack kern recurrent_kernel) (\<lambda>(ks, rks).
     thenE (gru_gates sigmoid x prev_h ks rks) (\<lambda>(x_z, x_r, x_h).
     thenE (broadcast_op (*) (nd_map (\<lambda>v. 1 - v) x_z) x_h) (\<lambda>t1.
     thenE (broadcast_op (*) x_z prev_h) (\<lambda>t2.
       broadcast_op (+) t1 t2))))"

text \<open>
  The gradients of \<open>gru.backward\<close> at the inputs of the three activations:
  \<open>x_z_raw_grad\<close>, \<open>x_r_raw_grad\<close> and \<open>x_h_raw_grad\<close>.
\<close>

definition gru_raw_grads ::
  "real ndarray \<Rightarrow> real ndarray \<Rightarrow> real ndarray
     \<Rightarrow> real ndarray \<times> real ndarray \<times> real ndarray
     \<Rightarrow> py_error + real ndarray \<times> real ndarray \<times> real ndarray" where
  "gru_raw_grads out_grad prev_h recurrent_kernel_h gates =
     (case gates of (x_z, x_r, x_h) \<Rightarrow>
        thenE (broadcast_op (-) prev_h x_h) (\<lambda>d.
        thenE (broadcast_op (*) out_grad d) (\<lambda>x_z_grad.
        thenE (broadcast_op (*) x_z_grad x_z) (\<lambda>t.
        thenE (broadcast_op (*) t (nd_map (\<lambda>v. 1 - v) x_z)) (\<lambda>x_z_raw_grad.
        thenE (broadcast_op (*) out_grad (nd_map (\<lambda>v. 1 - v) x_z)) (\<lambda>x_h_grad.
        thenE (broadcast_op (*) x_h_grad (nd_map (\<lambda>v. 1 - v ^ 2) x_h)) (\<lambda>x_h_raw_grad.
        thenE (np_matmul x_h_raw_grad (transpose2 recurrent_kernel_h)) (\<lambda>m.
        thenE (broadcast_op (*) m prev_h) (\<lambda>x_r_grad.
        thenE (broadcast_op (*) x_r_grad x_r) (\<lambda>t.
        thenE (broadcast_op (*) t (nd_map (\<lambda>v. 1 - v) x_r)) (\<lambda>x_r_raw_grad.
          Inr (x_z_raw_grad, x_r_raw_grad, x_h_raw_grad))))))))))))"

text \<open>The gradients of the input and of the previous state.\<close>

definition gru_in_grads ::
  "real ndarray \<Rightarrow> real ndarray \<times> real ndarray \<times> real ndarray
     \<Rightarrow> (real ndarray \<times> real ndarray \<times> real ndarray)
     \<Rightarrow> (real ndarray \<times> real ndarray \<times> real ndarray)
     \<Rightarrow> real ndarray \<times> real ndarray \<times> real ndarray
     \<Rightarrow> py_error + real ndarray \<times> real ndarray" where
  "gru_in_grads out_grad gates ks rks raw =
     (case (gates, ks, rks, raw) of
        ((x_z, x_r, x_h), (kernel_z, kernel_r, kernel_h'),
         (recurrent_kernel_z, recurrent_kernel_r, recurrent_kernel_h),
         (x_z_raw_grad, x_r_raw_grad, x_h_raw_grad)) \<Rightarrow>
          thenE (np_matmul x_z_raw_grad (transpose2 kernel_z)) (\<lambda>a.
          thenE (np_matmul x_r_raw_grad (transpose2 kernel_r)) (\<lambda>b.
          thenE (broadcast_op (+) a b) (\<lambda>ab.
          thenE (np_matmul x_h_raw_grad (transpose2 kernel_h')) (\<lambda>c.
          thenE (broadcast_op (+) ab c) (\<lambda>x_grad.
          thenE (np_matmul x_z_raw_grad (transpose2 recurrent_kernel_z)) (\<lambda>a.
          thenE (np_matmul x_r_raw_grad (transpose2 recurrent_kernel_r)) (\<lambda>b.
          thenE (broadcast_op (+) a b) (\<lambda>ab.
          thenE (np_matmul x_h_raw_grad (transpose2 recurrent_kernel_h)) (\<lambda>c.
          thenE (broadcast_op (*) c x_r) (\<lambda>cr.
          thenE (broadcast_op (+) ab cr) (\<lambda>abc.
          thenE (broadcast_op (*) out_grad x_z) (\<lambda>oz.
          thenE (broadcast_op (+) abc oz) (\<lambda>prev_h_grad.
            Inr (x_grad, prev_h_grad)))))))))))))))"

text \<open>
  The gradients of the column blocks of the two kernels, in the order in which
  \<open>gru.backward\<close> computes them: \<open>r\<close>, \<open>z\<close>, \<open>h\<close>.
\<close>

definition gru_kernel_grads ::
  "real ndarray \<Rightarrow> real ndarray \<Rightarrow> real ndarray
     \<Rightarrow> real ndarray \<times> real ndarray \<times> real ndarray
     \<Rightarrow> py_error + (real ndarray \<times> real ndarray \<times> real ndarray)
                  \<times> (real ndarray \<times> real ndarray \<times> real ndarray)" where
  "gru_kernel_grads x prev_h x_r raw =
     (case raw of (x_z_raw_grad, x_r_raw_grad, x_h_raw_grad) \<Rightarrow>
        thenE (np_matmul (transpose2 x) x_r_raw_grad) (\<lambda>kernel_r_grad.
        thenE (np_matmul (transpose2 x) x_z_raw_grad) (\<lambda>kernel_z_grad.
        thenE (np_matmul (transpose2 x) x_h_raw_grad) (\<lambda>kernel_h_grad.
        thenE (np_matmul (transpose2 prev_h) x_r_raw_grad) (\<lambda>recurrent_kernel_r_grad.
        thenE (np_matmul (transpose2 prev_h) x_z_raw_grad) (\<lambda>recurrent_kernel_z_grad.
        thenE (broadcast_op (*) prev_h x_r) (\<lambda>pr.
        thenE (np_matmul (transpose2 pr) x_h_raw_grad) (\<lambda>recurrent_kernel_h_grad.
          Inr ((kernel_z_grad, kernel_r_grad, kernel_h_grad),
               (recurrent_kernel_z_grad, recurrent_kernel_r_grad,
                recurrent_kernel_h_grad))))))))))"

text \<open>\<open>gru.backward\<close>\<close>

definition gru_backward ::
  "(real \<Rightarrow> real) \<Rightarrow> real ndarray \<Rightarrow> real ndarray \<Rightarrow> real ndarray \<Rightarrow> real ndarray
     \<Rightarrow> real ndarray
     \<Rightarrow> py_error + (real ndarray \<times> real ndarray) \<times> real ndarray \<times> real ndarray" where
  "gru_backward sigmoid out_grad x prev_h kern recurrent_kernel =
     thenE (gru_unpack kern recurrent_kernel) (\<lambda>(ks, rks).
     thenE (gru_gates sigmoid x prev_h ks rks) (\<lambda>gates.
     thenE (gru_raw_grads out_grad prev_h (snd (snd rks)) gates) (\<lambda>raw.
     thenE (gru_in_grads out_grad gates ks rks raw) (\<lambda>in_grad.
     thenE (gru_kernel_grads x prev_h (fst (snd gates)) raw) (\<lambda>(kg, rkg).
     thenE (concatenate3 (fst kg) (fst (snd kg)) (snd (snd kg))) (\<lambda>kernel_grad.
     thenE (concatenate3 (fst rkg) (fst (snd rkg)) (snd (snd rkg))) (\<lambda>r_kernel_grad.
       Inr (in_grad, kernel_grad, r_kernel_grad))))))))"

section \<open>Elementwise operators, flatten and the vanilla RNN cell\<close>

text \<open>\<open>relu\<close>: the class of operators.py and the free functions of operations.py.\<close>

definition relu_forward :: "real ndarray \<Rightarrow> real ndarray" where
  "relu_forward input = nd_map (max 0) input"

definition relu_backward :: "real ndarray \<Rightarrow> real ndarray \<Rightarrow> py_error + real ndarray" where
  "relu_backward out_grad input =
     broadcast_op (\<lambda>b g. (if b then 1 else 0) * g) (nd_map (\<lambda>v. 0 \<le> v) input) out_grad"

text \<open>\<open>flatten\<close>: the class of operators.py and the free functions of operations.py.\<close>

definition flatten_forward :: "real ndarray \<Rightarrow> py_error + real ndarray" where
  "flatten_forward input =
     (case shape input of
        [] \<Rightarrow> Inl IndexError
      | batch # _ \<Rightarrow> np_reshape input [int batch, - 1])"

definition flatten_backward :: "real ndarray \<Rightarrow> real ndarray \<Rightarrow> py_error + real ndarray" where
  "flatten_backward out_grad input = np_reshape out_grad (map int (shape input))"

text \<open>
  \<open>vanilla_rnn.forward\<close> and \<open>vanilla_rnn.backward\<close>. On the reals \<open>np.nan_to_num\<close> changes
  nothing. The name \<open>kern\<close> stands for the source's \<open>kernel\<close>.
\<close>

definition vanilla_rnn_forward ::
  "real ndarray \<Rightarrow> real ndarray \<Rightarrow> real ndarray \<Rightarrow> real ndarray \<Rightarrow> real ndarray
     \<Rightarrow> py_error + real ndarray" where
  "vanilla_rnn_forward x prev_h kern recurrent_kernel bias =
     thenE (np_matmul x kern) (\<lambda>a.
     thenE (np_matmul prev_h recurrent_kernel) (\<lambda>b.
     thenE (broadcast_op (+) a b) (\<lambda>s.
     thenE (broadcast_op (+) s bias) (\<lambda>t.
       Inr (nd_map tanh t)))))"

definition vanilla_rnn_backward ::
  "real ndarray \<Rightarrow> real ndarray \<Rightarrow> real ndarray \<Rightarrow> real ndarray \<Rightarrow> real ndarray
     \<Rightarrow> real ndarray
     \<Rightarrow> py_error + (real ndarray \<times> real ndarray) \<times> real ndarray \<times> real ndarray \<times> real ndarray"
  where
  "vanilla_rnn_backward out_grad x prev_h kern recurrent_kernel bias =
     thenE (vanilla_rnn_forward x prev_h kern recurrent_kernel bias) (\<lambda>h.
     thenE (broadcast_op (*) out_grad (nd_map (\<lambda>v. 1 - v ^ 2) h)) (\<lambda>tanh_grad.
     thenE (np_matmul tanh_grad (transpose2 kern)) (\<lambda>x_grad.
     thenE (np_matmul tanh_grad (transpose2 recurrent_kernel)) (\<lambda>prev_h_grad.
     thenE (np_matmul (transpose2 x) tanh_grad) (\<lambda>kernel_grad.
     thenE (np_matmul (transpose2 prev_h) tanh_grad) (\<lambda>r_kernel_grad.
     thenE (sum_axis0 tanh_grad) (\<lambda>b_grad.
       Inr ((x_grad, prev_h_grad), kernel_grad, r_kernel_grad, b_grad))))))))"

section \<open>\<open>conv_backward\<close> of operations.py\<close>

text \<open>\<open>x[:, :, idx]\<close> of an array of rank 3.\<close>

definition take_last3 :: "'a ndarray \<Rightarrow> nat \<Rightarrow> py_error + 'a ndarray" where
  "take_last3 x idx =
     (case shape x of
        [B, L, Q] \<Rightarrow>
          if Q \<le> idx then Inl IndexError else Inr (tab2 B L (\<lambda>n l. at3 x n l idx))
      | _ \<Rightarrow> Inl Unmodelled)"

text \<open>
  Python's \<open>sum\<close> of a list of arrays: \<open>0 + a + b + \<dots>\<close>. The sum of no array is the
  integer 0, which has no \<open>reshape\<close>.
\<close>

definition py_sum_arrays :: "real ndarray list \<Rightarrow> py_error + real ndarray" where
  "py_sum_arrays arrs =
     (case arrs of
        [] \<Rightarrow> Inl AttributeError
      | a # rest \<Rightarrow> foldE (\<lambda>acc b. broadcast_op (+) acc b) (nd_map (\<lambda>v. 0 + v) a) rest)"

text \<open>The three parts of \<open>conv_backward\<close>: the patches and their gradient, the scatter
  loop, and the gradients of the weights and of the bias.\<close>

definition conv_scatter_step ::
  "nat \<Rightarrow> nat \<Rightarrow> nat \<Rightarrow> nat \<Rightarrow> real ndarray \<Rightarrow> real ndarray \<Rightarrow> nat \<times> nat \<times> nat
     \<Rightarrow> py_error + real ndarray" where
  "conv_scatter_step batch C k_h k_w input_conv_grad input_pad_grad step =
     (case step of (idx, i, j) \<Rightarrow>
        thenE (take_last3 input_conv_grad idx) (\<lambda>col.
        thenE (np_reshape col [int batch, int C, int k_h, int k_w]) (\<lambda>patch.
          iadd_slice4 input_pad_grad i (i + k_h) j (j + k_w) patch)))"

definition conv_backward_patches ::
  "real ndarray \<Rightarrow> real ndarray \<Rightarrow> real ndarray \<Rightarrow> conv_params
     \<Rightarrow> py_error + real ndarray \<times> real ndarray \<times> nat list \<times> nat list" where
  "conv_backward_patches out_grad input weights cp =
     (case shape input of
        [batch, in_chan, in_height, in_width] \<Rightarrow>
          thenE (py_floordiv (int in_height - int (kernel_h cp) + 2 * int (conv_pad cp))
                   (int (conv_stride cp))) (\<lambda>qh.
          thenE (py_floordiv (int in_width - int (kernel_w cp) + 2 * int (conv_pad cp))
                   (int (conv_stride cp))) (\<lambda>qw.
          let out_height = 1 + qh; out_width = 1 + qw;
              input_pad = np_pad_all input (conv_pad cp);
              recep_fields_h = map (\<lambda>i. conv_stride cp * i) [0..<nat out_height];
              recep_fields_w = map (\<lambda>i. conv_stride cp * i) [0..<nat out_width]
          in
          thenE (img2col input_pad recep_fields_h recep_fields_w (kernel_h cp) (kernel_w cp))
            (\<lambda>input_conv.
          thenE (np_reshape out_grad [int batch, int (out_channel cp), - 1]) (\<lambda>og.
          thenE (mapE (\<lambda>x. thenE (np_reshape weights [int (out_channel cp), - 1]) (\<lambda>W.
                            np_matmul (transpose2 W) x))
                   (unstack0 og)) (\<lambda>gs.
          thenE (np_stack0 gs) (\<lambda>input_conv_grad.
            Inr (input_conv, input_conv_grad, recep_fields_h, recep_fields_w)))))))
      | _ \<Rightarrow> Inl ValueError)"

definition conv_backward_params ::
  "real ndarray \<Rightarrow> real ndarray \<Rightarrow> real ndarray \<Rightarrow> conv_params \<Rightarrow> real ndarray
     \<Rightarrow> py_error + real ndarray \<times> real ndarray" where
  "conv_backward_params out_grad input weights cp input_conv =
     thenE (np_reshape out_grad [int (hd (shape input)), int (out_channel cp), - 1]) (\<lambda>og.
     thenE (mapE (\<lambda>x. np_matmul (fst x) (transpose2 (snd x)))
              (zip (unstack0 og) (unstack0 input_conv))) (\<lambda>ps.
     thenE (py_sum_arrays ps) (\<lambda>s.
     thenE (np_reshape s (map int (shape weights))) (\<lambda>w_grad.
     thenE (sum_axes_023 out_grad) (\<lambda>b_grad.
       Inr (w_grad, b_grad))))))"

definition conv_backward_fn ::
  "real ndarray \<Rightarrow> real ndarray \<Rightarrow> real ndarray \<Rightarrow> real ndarray \<Rightarrow> conv_params
     \<Rightarrow> py_error + real ndarray \<times> real ndarray \<times> real ndarray" where
  "conv_backward_fn out_grad input weights bias cp =
     thenE (conv_backward_patches out_grad input weights cp)
       (\<lambda>(input_conv, input_conv_grad, recep_fields_h, recep_fields_w).
     let batch = shape input ! 0; in_chan = shape input ! 1;
         in_height = shape input ! 2; in_width = shape input ! 3;
         p = conv_pad cp
     in
     thenE (foldE (conv_scatter_step batch in_chan (kernel_h cp) (kernel_w cp) input_conv_grad)
              (np_zeros [batch, in_chan, in_height + 2 * p, in_width + 2 * p])
              (List.enumerate 0 (List.product recep_fields_h recep_fields_w)))
       (\<lambda>input_pad_grad.
     let in_grad = slice4 input_pad_grad p (p + in_height) p (p + in_width) in
     thenE (conv_backward_params out_grad input weights cp input_conv) (\<lambda>(w_grad, b_grad).
       Inr (in_grad, w_grad, b_grad))))"

section \<open>Arrays in memory\<close>

text \<open>
  To speak about the mutation of arrays, the operators are also given over a store: an
  argument is the address of an array, an expression that creates an array allocates a
  new address, and an in-place statement (\<open>a[...] = v\<close>, \<open>a[...] += v\<close>, \<open>a /= n\<close>,
  \<open>np.add.at(a, ...)\<close>) stores into the address of its target. A view (a reshape, a
  transpose or a slice) is held by its elements in a cell of its own; an operator that
  returns one of its arguments returns its address.
\<close>

datatype cell = FloatArray "real ndarray" | IntArray "int ndarray"

record heap =
  cells :: "nat \<Rightarrow> cell"
  next_free :: nat

type_synonym 'a hm = "heap \<Rightarrow> (py_error + 'a) \<times> heap"

definition returnH :: "'a \<Rightarrow> 'a hm" where
  "returnH v = (\<lambda>h. (Inr v, h))"

definition raiseH :: "py_error \<Rightarrow> 'a hm" where
  "raiseH e = (\<lambda>h. (Inl e, h))"

definition liftE :: "py_error + 'a \<Rightarrow> 'a hm" where
  "liftE x = (\<lambda>h. (x, h))"

definition bindH :: "'a hm \<Rightarrow> ('a \<Rightarrow> 'b hm) \<Rightarrow> 'b hm" where
  "bindH m f = (\<lambda>h. case m h of (Inl e, h') \<Rightarrow> (Inl e, h') | (Inr v, h') \<Rightarrow> f v h')"

text \<open>A new array, the array at an address, and an in-place statement on an address.\<close>

definition newH :: "cell \<Rightarrow> nat hm" where
  "newH c = (\<lambda>h. (Inr (next_free h),
                   h\<lparr>cells := (cells h)(next_free h := c), next_free := Suc (next_free h)\<rparr>))"

definition floatsH :: "nat \<Rightarrow> real ndarray hm" where
  "floatsH p = (\<lambda>h. if next_free h \<le> p then (Inl Unmodelled, h)
                     else case cells h p of FloatArray a \<Rightarrow> (Inr a, h) | IntArray a \<Rightarrow> (Inl Unmodelled, h))"

definition intsH :: "nat \<Rightarrow> int ndarray hm" where
  "intsH p = (\<lambda>h. if next_free h \<le> p then (Inl Unmodelled, h)
                   else case cells h p of IntArray a \<Rightarrow> (Inr a, h) | FloatArray a \<Rightarrow> (Inl Unmodelled, h))"

definition storeH :: "nat \<Rightarrow> cell \<Rightarrow> unit hm" where
  "storeH p c = (\<lambda>h. if next_free h \<le> p then (Inl Unmodelled, h)
                      else (Inr (), h\<lparr>cells := (cells h)(p := c)\<rparr>))"

definition updateH :: "nat \<Rightarrow> (real ndarray \<Rightarrow> py_error + real ndarray) \<Rightarrow> unit hm" where
  "updateH p f = bindH (floatsH p) (\<lambda>a. bindH (liftE (f a)) (\<lambda>a'. storeH p (FloatArray a')))"

text \<open>An expression that creates an array of floating-point numbers.\<close>

definition new_floats :: "py_error + real ndarray \<Rightarrow> nat hm" where
  "new_floats x = bindH (liftE x) (\<lambda>a. newH (FloatArray a))"

text \<open>A \<open>for\<close> loop of statements.\<close>

fun forH :: "'a list \<Rightarrow> ('a \<Rightarrow> unit hm) \<Rightarrow> unit hm" where
  "forH [] f = returnH ()"
| "forH (x # xs) f = bindH (f x) (\<lambda>u. forH xs f)"

text \<open>
  A call keeps the arrays that exist when it starts: whether it returns or raises, each
  of them holds afterwards what it held before.
\<close>

definition keeps_arrays :: "'a hm \<Rightarrow> bool" where
  "keeps_arrays m \<longleftrightarrow> (\<forall>h p. p < next_free h \<longrightarrow> cells (snd (m h)) p = cells h p)"

text \<open>
  The invariant behind it: started with at least \<open>n\<close> arrays, a computation keeps the
  first \<open>n\<close> arrays and frees none, and its result satisfies \<open>Q\<close>.
\<close>

definition preserves :: "nat \<Rightarrow> 'a hm \<Rightarrow> ('a \<Rightarrow> bool) \<Rightarrow> bool" where
  "preserves n m Q \<longleftrightarrow>
     (\<forall>h. n \<le> next_free h \<longrightarrow>
        n \<le> next_free (snd (m h)) \<and> (\<forall>p<n. cells (snd (m h)) p = cells h p)
        \<and> (case fst (m h) of Inl e \<Rightarrow> True | Inr v \<Rightarrow> Q v))"

section \<open>The operators over the store\<close>

text \<open>\<open>relu\<close> and \<open>flatten\<close>, class and free functions.\<close>

definition relu_forward_h :: "nat \<Rightarrow> nat hm" where
  "relu_forward_h input = bindH (floatsH input) (\<lambda>x. new_floats (Inr (relu_forward x)))"

definition relu_backward_h :: "nat \<Rightarrow> nat \<Rightarrow> nat hm" where
  "relu_backward_h out_grad input =
     bindH (floatsH out_grad) (\<lambda>g.
     bindH (floatsH input) (\<lambda>x. new_floats (relu_backward g x)))"

definition flatten_forward_h :: "nat \<Rightarrow> nat hm" where
  "flatten_forward_h input =
     bindH (floatsH input) (\<lambda>x.
     bindH (newH (FloatArray x)) (\<lambda>copy.
     bindH (floatsH copy) (\<lambda>c. new_floats (flatten_forward c))))"

definition flatten_backward_h :: "nat \<Rightarrow> nat \<Rightarrow> nat hm" where
  "flatten_backward_h out_grad input =
     bindH (floatsH out_grad) (\<lambda>g.
     bindH (floatsH input) (\<lambda>x.
     bindH (newH (FloatArray g)) (\<lambda>copy.
     bindH (floatsH copy) (\<lambda>c. new_floats (flatten_backward c x)))))"

text \<open>The affine operators.\<close>

definition matmul_forward_h :: "nat \<Rightarrow> nat \<Rightarrow> nat hm" where
  "matmul_forward_h input weights =
     bindH (floatsH input) (\<lambda>x.
     bindH (floatsH weights) (\<lambda>w. new_floats (np_matmul x w)))"

definition matmul_backward_h :: "nat \<Rightarrow> nat \<Rightarrow> nat \<Rightarrow> (nat \<times> nat) hm" where
  "matmul_backward_h out_grad input weights =
     bindH (floatsH out_grad) (\<lambda>g.
     bindH (floatsH input) (\<lambda>x.
     bindH (floatsH weights) (\<lambda>w.
     bindH (new_floats (np_matmul g (transpose2 w))) (\<lambda>in_grad.
     bindH (new_floats (np_matmul (transpose2 x) g)) (\<lambda>w_grad.
       returnH (in_grad, w_grad))))))"

definition add_bias_forward_h :: "nat \<Rightarrow> nat \<Rightarrow> nat hm" where
  "add_bias_forward_h input bias =
     bindH (floatsH input) (\<lambda>x.
     bindH (floatsH bias) (\<lambda>b. new_floats (add_bias_forward x b)))"

definition add_bias_backward_h :: "nat \<Rightarrow> nat \<Rightarrow> nat \<Rightarrow> (nat \<times> nat) hm" where
  "add_bias_backward_h out_grad input bias =
     bindH (floatsH out_grad) (\<lambda>g.
     bindH (new_floats (sum_axis0 g)) (\<lambda>b_grad.
       returnH (out_grad, b_grad)))"

definition linear_forward_h :: "nat \<Rightarrow> nat \<Rightarrow> nat \<Rightarrow> nat hm" where
  "linear_forward_h input weights bias =
     bindH (matmul_forward_h input weights) (\<lambda>output. add_bias_forward_h output bias)"

definition linear_backward_h :: "nat \<Rightarrow> nat \<Rightarrow> nat \<Rightarrow> nat \<Rightarrow> (nat \<times> nat \<times> nat) hm" where
  "linear_backward_h out_grad input weights bias =
     bindH (add_bias_backward_h out_grad input bias) (\<lambda>(out_grad', b_grad).
     bindH (matmul_backward_h out_grad' input weights) (\<lambda>(in_grad, w_grad).
       returnH (in_grad, w_grad, b_grad)))"

definition fc_forward_h :: "nat \<Rightarrow> nat \<Rightarrow> nat \<Rightarrow> nat hm" where
  "fc_forward_h input weights bias =
     bindH (floatsH input) (\<lambda>x.
     bindH (floatsH weights) (\<lambda>w.
     bindH (floatsH bias) (\<lambda>b. new_floats (fc_forward x w b))))"

definition fc_backward_h :: "nat \<Rightarrow> nat \<Rightarrow> nat \<Rightarrow> nat \<Rightarrow> (nat \<times> nat \<times> nat) hm" where
  "fc_backward_h out_grad input weights bias =
     bindH (floatsH out_grad) (\<lambda>g.
     bindH (floatsH input) (\<lambda>x.
     bindH (floatsH weights) (\<lambda>w.
     bindH (new_floats (np_matmul g (transpose2 w))) (\<lambda>in_grad.
     bindH (new_floats (np_matmul (transpose2 x) g)) (\<lambda>w_grad.
     bindH (new_floats (sum_axis0 g)) (\<lambda>b_grad.
       returnH (in_grad, w_grad, b_grad)))))))"

text \<open>
  The class \<open>conv\<close>. \<open>col2img\<close> fills the array \<open>dX_pad\<close>, which it has created, with
  \<open>np.add.at\<close>.
\<close>

definition conv_forward_h :: "conv_params \<Rightarrow> nat \<Rightarrow> nat \<Rightarrow> nat \<Rightarrow> nat hm" where
  "conv_forward_h cp input weights bias =
     bindH (floatsH input) (\<lambda>x.
     bindH (floatsH weights) (\<lambda>w.
     bindH (floatsH bias) (\<lambda>b. new_floats (conv_forward cp x w b))))"

definition conv_col2img_h ::
  "real ndarray \<Rightarrow> nat \<Rightarrow> nat \<Rightarrow> nat \<Rightarrow> nat \<Rightarrow> nat \<Rightarrow> nat \<Rightarrow> nat \<Rightarrow> nat \<Rightarrow> nat hm" where
  "conv_col2img_h dX_hat N c_i n_h n_w k_h k_w p s =
     bindH (liftE (output_sizes n_h n_w k_h k_w p s)) (\<lambda>(o_h, o_w).
     bindH (newH (FloatArray (np_zeros [N, c_i, n_h + p, n_w + p]))) (\<lambda>dX_pad.
     bindH (liftE (get_im2col_data_indexes N c_i n_h n_w k_h k_w p s o_h o_w))
       (\<lambda>(channel_idxs, height_idxs, width_ixds).
     bindH (liftE (thenE (np_reshape dX_hat [int (c_i * k_h * k_w), - 1, int N])
                     (\<lambda>r. transposeE r [2, 0, 1]))) (\<lambda>dX_hat_batch.
     bindH (updateH dX_pad (\<lambda>a. add_at4 a channel_idxs height_idxs width_ixds dX_hat_batch))
       (\<lambda>u.
     if p \<noteq> 0 then
       bindH (floatsH dX_pad) (\<lambda>a. new_floats (Inr (slice4 a p (n_h + p - p) p (n_w + p - p))))
     else returnH dX_pad)))))"

definition conv_backward_h ::
  "conv_params \<Rightarrow> nat \<Rightarrow> nat \<Rightarrow> nat \<Rightarrow> nat \<Rightarrow> (nat \<times> nat \<times> nat) hm" where
  "conv_backward_h cp out_grad input weights bias =
     bindH (floatsH out_grad) (\<lambda>g.
     bindH (floatsH input) (\<lambda>x.
     bindH (floatsH weights) (\<lambda>w.
     case shape x of
       [batch, in_chan, in_height, in_width] \<Rightarrow>
         (let p = conv_pad cp div 2 in
          bindH (liftE (thenE (np_pad4 x (p, p) (p, p)) (\<lambda>X_pad.
                   conv_img2col X_pad batch in_chan in_height in_width (kernel_h cp)
                     (kernel_w cp) (conv_pad cp) (conv_stride cp))))
            (\<lambda>(X_hat, out_height, out_width).
          bindH (liftE (np_reshape w
                   [int (out_channel cp), int (in_chan * kernel_h cp * kernel_w cp)])) (\<lambda>W.
          bindH (liftE (thenE (transposeE g [1, 2, 3, 0]) (\<lambda>t.
                   np_reshape t [int (out_channel cp), int (batch * out_height * out_width)])))
            (\<lambda>out_grad_col.
          bindH (liftE (np_matmul (transpose2 W) out_grad_col)) (\<lambda>dX_hat.
          bindH (conv_col2img_h dX_hat batch in_chan in_height in_width (kernel_h cp)
                   (kernel_w cp) (conv_pad cp) (conv_stride cp)) (\<lambda>in_grad.
          bindH (new_floats (thenE (np_matmul out_grad_col (transpose2 X_hat)) (\<lambda>wg.
                   np_reshape wg [int (out_channel cp), int in_chan, int (kernel_h cp),
                                  int (kernel_w cp)]))) (\<lambda>w_grad.
          bindH (new_floats (sum_axes_023 g)) (\<lambda>b_grad.
            returnH (in_grad, w_grad, b_grad)))))))))
     | _ \<Rightarrow> raiseH ValueError)))"

text \<open>
  The class \<open>pool\<close>. \<open>forward\<close> assigns to the positions of the array \<open>output\<close>, and
  \<open>backward\<close> adds to windows of the array \<open>input_pad_grad\<close>; both arrays are created by
  \<open>np.zeros\<close> in the method.
\<close>

definition pool_forward_h :: "pool_params \<Rightarrow> nat \<Rightarrow> nat hm" where
  "pool_forward_h pp input =
     bindH (floatsH input) (\<lambda>x.
     case shape x of
       [batch, in_chan, in_height, in_width] \<Rightarrow>
         bindH (liftE (get_output_size in_height (pool_height pp) (pool_pad pp) (pool_stride pp)))
           (\<lambda>out_height.
         bindH (liftE (get_output_size in_width (pool_width pp) (pool_pad pp) (pool_stride pp)))
           (\<lambda>out_width.
         let p = pool_pad pp div 2 in
         bindH (liftE (np_pad4 x (p, p) (p, p))) (\<lambda>X_pad.
         if out_height < 0 \<or> out_width < 0 then raiseH ValueError
         else
           bindH (newH (FloatArray (np_zeros [nat out_height, nat out_width, batch, in_chan])))
             (\<lambda>outp.
           bindH (forH (List.product [0..<nat out_height] [0..<nat out_width])
                    (\<lambda>ij. updateH outp (\<lambda>a. pool_forward_step pp X_pad a ij))) (\<lambda>u.
           bindH (floatsH outp) (\<lambda>a. new_floats (transposeE a [2, 3, 0, 1])))))))
     | _ \<Rightarrow> raiseH ValueError)"

text \<open>The part of pooling backward after the patch gradient, shared by the class and the
  free function.\<close>

definition pool_scatter_h ::
  "nat \<Rightarrow> nat \<Rightarrow> nat \<Rightarrow> nat \<Rightarrow> real ndarray \<Rightarrow> nat list \<Rightarrow> nat list \<Rightarrow> nat list \<Rightarrow> nat
     \<Rightarrow> nat \<Rightarrow> nat \<Rightarrow> nat hm" where
  "pool_scatter_h batch C p_h p_w input_pool_grad pad_shape recep_fields_h recep_fields_w
       off in_height in_width =
     bindH (newH (FloatArray (np_zeros pad_shape))) (\<lambda>input_pad_grad.
     bindH (forH (List.enumerate 0 (List.product recep_fields_h recep_fields_w))
              (\<lambda>step. updateH input_pad_grad
                 (\<lambda>a. pool_scatter_step batch C p_h p_w input_pool_grad a step))) (\<lambda>u.
     bindH (floatsH input_pad_grad) (\<lambda>a.
       new_floats (Inr (slice4 a off (off + in_height) off (off + in_width))))))"

definition pool_backward_h :: "pool_params \<Rightarrow> nat \<Rightarrow> nat \<Rightarrow> nat hm" where
  "pool_backward_h pp out_grad input =
     bindH (floatsH out_grad) (\<lambda>g.
     bindH (floatsH input) (\<lambda>x.
     case shape x of
       [batch, in_chan, in_height, in_width] \<Rightarrow>
         bindH (liftE (py_floordiv (int in_height - int (pool_height pp) + int (pool_pad pp))
                  (int (pool_stride pp)))) (\<lambda>qh.
         bindH (liftE (py_floordiv (int in_width - int (pool_width pp) + int (pool_pad pp))
                  (int (pool_stride pp)))) (\<lambda>qw.
         let out_height = 1 + qh; out_width = 1 + qw;
             pad_scheme = (pool_pad pp div 2, pool_pad pp - pool_pad pp div 2)
         in
         bindH (liftE (np_pad4 x pad_scheme pad_scheme)) (\<lambda>input_pad.
         let recep_fields_h = map (\<lambda>i. pool_stride pp * i) [0..<nat out_height];
             recep_fields_w = map (\<lambda>i. pool_stride pp * i) [0..<nat out_width]
         in
         bindH (liftE (thenE (img2col input_pad recep_fields_h recep_fields_w (pool_height pp)
                                (pool_width pp)) (\<lambda>cols.
                  thenE (np_reshape cols [int batch, int in_chan, - 1, out_height, out_width])
                    (\<lambda>input_pool.
                  thenE (pool_patch_grad (pool_type pp) (pool_height pp) (pool_width pp)
                           input_pool g) (\<lambda>pg.
                    np_reshape pg [int batch, int in_chan, - 1, out_height * out_width])))))
           (\<lambda>input_pool_grad.
         pool_scatter_h batch in_chan (pool_height pp) (pool_width pp) input_pool_grad
           (shape input_pad) recep_fields_h recep_fields_w (pool_pad pp) in_height in_width))))
     | _ \<Rightarrow> raiseH ValueError))"

text \<open>The free functions of convolution and pooling.\<close>

definition conv_forward_fn_h :: "nat \<Rightarrow> nat \<Rightarrow> nat \<Rightarrow> conv_params \<Rightarrow> nat hm" where
  "conv_forward_fn_h input weights bias cp =
     bindH (floatsH input) (\<lambda>x.
     bindH (floatsH weights) (\<lambda>w.
     bindH (floatsH bias) (\<lambda>b. new_floats (conv_forward_fn x w b cp))))"

definition conv_backward_fn_h ::
  "nat \<Rightarrow> nat \<Rightarrow> nat \<Rightarrow> nat \<Rightarrow> conv_params \<Rightarrow> (nat \<times> nat \<times> nat) hm" where
  "conv_backward_fn_h out_grad input weights bias cp =
     bindH (floatsH out_grad) (\<lambda>g.
     bindH (floatsH input) (\<lambda>x.
     bindH (floatsH weights) (\<lambda>w.
     bindH (liftE (conv_backward_patches g x w cp))
       (\<lambda>(input_conv, input_conv_grad, recep_fields_h, recep_fields_w).
     let batch = shape x ! 0; in_chan = shape x ! 1;
         in_height = shape x ! 2; in_width = shape x ! 3;
         p = conv_pad cp
     in
     bindH (newH (FloatArray (np_zeros [batch, in_chan, in_height + 2 * p, in_width + 2 * p])))
       (\<lambda>input_pad_grad.
     bindH (forH (List.enumerate 0 (List.product recep_fields_h recep_fields_w))
              (\<lambda>step. updateH input_pad_grad
                 (\<lambda>a. conv_scatter_step batch in_chan (kernel_h cp) (kernel_w cp)
                         input_conv_grad a step))) (\<lambda>u.
     bindH (floatsH input_pad_grad) (\<lambda>a.
     bindH (new_floats (Inr (slice4 a p (p + in_height) p (p + in_width)))) (\<lambda>in_grad.
     bindH (liftE (conv_backward_params g x w cp input_conv)) (\<lambda>(wg, bg).
     bindH (newH (FloatArray wg)) (\<lambda>w_grad.
     bindH (newH (FloatArray bg)) (\<lambda>b_grad.
       returnH (in_grad, w_grad, b_grad))))))))))))"

definition pool_forward_fn_h :: "nat \<Rightarrow> pool_params \<Rightarrow> nat hm" where
  "pool_forward_fn_h input pp =
     bindH (floatsH input) (\<lambda>x. new_floats (pool_forward_fn x pp))"

definition pool_backward_fn_h :: "nat \<Rightarrow> nat \<Rightarrow> pool_params \<Rightarrow> nat hm" where
  "pool_backward_fn_h out_grad input pp =
     bindH (floatsH out_grad) (\<lambda>g.
     bindH (floatsH input) (\<lambda>x.
     case shape x of
       [batch, in_chan, in_height, in_width] \<Rightarrow>
         bindH (liftE (py_floordiv (int in_height - int (pool_height pp) + 2 * int (pool_pad pp))
                  (int (pool_stride pp)))) (\<lambda>qh.
         bindH (liftE (py_floordiv (int in_width - int (pool_width pp) + 2 * int (pool_pad pp))
                  (int (pool_stride pp)))) (\<lambda>qw.
         let out_height = 1 + qh; out_width = 1 + qw;
             input_pad = np_pad_all x (pool_pad pp);
             recep_fields_h = map (\<lambda>i. pool_stride pp * i) [0..<nat out_height];
             recep_fields_w = map (\<lambda>i. pool_stride pp * i) [0..<nat out_width]
         in
         bindH (liftE (thenE (img2col input_pad recep_fields_h recep_fields_w (pool_height pp)
                                (pool_width pp)) (\<lambda>cols.
                  thenE (np_reshape cols [int batch, int in_chan, - 1, out_height, out_width])
                    (\<lambda>input_pool.
                  thenE (pool_patch_grad (pool_type pp) (pool_height pp) (pool_width pp)
                           input_pool g) (\<lambda>pg.
                    np_reshape pg [int batch, int in_chan, - 1, out_height * out_width])))))
           (\<lambda>input_pool_grad.
         pool_scatter_h batch in_chan (pool_height pp) (pool_width pp) input_pool_grad
           (shape input_pad) recep_fields_h recep_fields_w (pool_pad pp) in_height in_width)))
     | _ \<Rightarrow> raiseH ValueError))"

text \<open>
  Dropout. The free function returns the output, the mask and the state of the
  generator; the method returns the output, the address in the attribute \<open>mask\<close> and the
  state of the generator. Outside training both return the input itself.
\<close>

definition dropout_forward_fn_h ::
  "'g rng \<Rightarrow> 'g \<Rightarrow> 'g \<Rightarrow> nat \<Rightarrow> real \<Rightarrow> bool \<Rightarrow> int option \<Rightarrow> (nat \<times> nat option \<times> 'g) hm"
  where
  "dropout_forward_fn_h R entropy g input r is_training sd =
     (if is_training then
        bindH (floatsH input) (\<lambda>x.
        bindH (liftE (if 1 - r = 0 then Inl ZeroDivisionError else Inr (1 / (1 - r)))) (\<lambda>scale.
        bindH (liftE (np_random_seed R entropy sd)) (\<lambda>g1.
        case np_random_sample R g1 (shape x) of
          (p, g2) \<Rightarrow>
            bindH (newH (FloatArray p)) (\<lambda>pa.
            bindH (newH (IntArray (nd_map (\<lambda>v. if r \<le> v then 1 else 0) p))) (\<lambda>m.
            bindH (intsH m) (\<lambda>mv.
            bindH (new_floats (Inr (nd_map (\<lambda>v. v * scale)
                                     (nd_zip (\<lambda>v k. v * real_of_int k) x mv)))) (\<lambda>outp.
              returnH (outp, Some m, g2))))))))
      else returnH (input, None, g))"

definition dropout_backward_fn_h :: "nat \<Rightarrow> nat \<Rightarrow> real \<Rightarrow> nat option \<Rightarrow> bool \<Rightarrow> nat hm" where
  "dropout_backward_fn_h out_grad input r m is_training =
     (if is_training then
        bindH (floatsH out_grad) (\<lambda>g.
        bindH (floatsH input) (\<lambda>x.
        case m of
          None \<Rightarrow> new_floats (dropout_backward_fn g x r None True)
        | Some ma \<Rightarrow>
            bindH (intsH ma) (\<lambda>mv. new_floats (dropout_backward_fn g x r (Some mv) True))))
      else returnH out_grad)"

definition dropout_forward_h ::
  "'g rng \<Rightarrow> 'g \<Rightarrow> 'g \<Rightarrow> real \<Rightarrow> int option \<Rightarrow> bool \<Rightarrow> nat option \<Rightarrow> nat
     \<Rightarrow> (nat \<times> nat option \<times> 'g) hm" where
  "dropout_forward_h R entropy g self_rate self_seed self_training self_mask input =
     (if self_training then
        bindH (floatsH input) (\<lambda>x.
        bindH (liftE (if 1 - self_rate = 0 then Inl ZeroDivisionError
                      else Inr (1 / (1 - self_rate)))) (\<lambda>scale.
        bindH (liftE (np_random_seed R entropy self_seed)) (\<lambda>g1.
        case np_random_sample R g1 (shape x) of
          (p, g2) \<Rightarrow>
            bindH (newH (FloatArray p)) (\<lambda>pa.
            bindH (newH (IntArray (nd_map (\<lambda>v. if self_rate \<le> v then 1 else 0) p))) (\<lambda>m0.
            bindH (intsH m0) (\<lambda>mv.
            bindH (newH (FloatArray (nd_map (\<lambda>k. real_of_int k * scale) mv))) (\<lambda>m1.
            bindH (floatsH m1) (\<lambda>m1v.
            bindH (new_floats (Inr (nd_zip (*) x m1v))) (\<lambda>outp.
              returnH (outp, Some m1, g2))))))))))
      else returnH (input, self_mask, g))"

definition dropout_backward_h :: "bool \<Rightarrow> nat option \<Rightarrow> nat \<Rightarrow> nat \<Rightarrow> nat hm" where
  "dropout_backward_h self_training self_mask out_grad input =
     (if self_training then
        bindH (floatsH out_grad) (\<lambda>g.
        case self_mask of
          None \<Rightarrow> raiseH TypeError
        | Some ma \<Rightarrow> bindH (floatsH ma) (\<lambda>mv. new_floats (broadcast_op (*) g mv)))
      else returnH out_grad)"

text \<open>The recurrent operators.\<close>

definition vanilla_rnn_forward_h :: "nat \<Rightarrow> nat \<Rightarrow> nat \<Rightarrow> nat \<Rightarrow> nat \<Rightarrow> nat hm" where
  "vanilla_rnn_forward_h x prev_h kern recurrent_kernel bias =
     bindH (floatsH x) (\<lambda>xv.
     bindH (floatsH prev_h) (\<lambda>hv.
     bindH (floatsH kern) (\<lambda>kv.
     bindH (floatsH recurrent_kernel) (\<lambda>rv.
     bindH (floatsH bias) (\<lambda>bv. new_floats (vanilla_rnn_forward xv hv kv rv bv))))))"

definition vanilla_rnn_backward_h ::
  "nat \<Rightarrow> nat \<Rightarrow> nat \<Rightarrow> nat \<Rightarrow> nat \<Rightarrow> nat \<Rightarrow> ((nat \<times> nat) \<times> nat \<times> nat \<times> nat) hm" where
  "vanilla_rnn_backward_h out_grad x prev_h kern recurrent_kernel bias =
     bindH (floatsH out_grad) (\<lambda>gv.
     bindH (floatsH x) (\<lambda>xv.
     bindH (floatsH prev_h) (\<lambda>hv.
     bindH (floatsH kern) (\<lambda>kv.
     bindH (floatsH recurrent_kernel) (\<lambda>rv.
     bindH (floatsH bias) (\<lambda>bv.
     bindH (liftE (vanilla_rnn_backward gv xv hv kv rv bv))
       (\<lambda>((x_grad, prev_h_grad), kernel_grad, r_kernel_grad, b_grad).
     bindH (newH (FloatArray x_grad)) (\<lambda>a1.
     bindH (newH (FloatArray prev_h_grad)) (\<lambda>a2.
     bindH (newH (FloatArray kernel_grad)) (\<lambda>a3.
     bindH (newH (FloatArray r_kernel_grad)) (\<lambda>a4.
     bindH (newH (FloatArray b_grad)) (\<lambda>a5.
       returnH ((a1, a2), a3, a4, a5)))))))))))))"

definition gru_forward_h :: "(real \<Rightarrow> real) \<Rightarrow> nat \<Rightarrow> nat \<Rightarrow> nat \<Rightarrow> nat \<Rightarrow> nat hm" where
  "gru_forward_h sigmoid x prev_h kern recurrent_kernel =
     bindH (floatsH x) (\<lambda>xv.
     bindH (floatsH prev_h) (\<lambda>hv.
     bindH (floatsH kern) (\<lambda>kv.
     bindH (floatsH recurrent_kernel) (\<lambda>rv. new_floats (gru_forward sigmoid xv hv kv rv)))))"

definition gru_backward_h ::
  "(real \<Rightarrow> real) \<Rightarrow> nat \<Rightarrow> nat \<Rightarrow> nat \<Rightarrow> nat \<Rightarrow> nat \<Rightarrow> ((nat \<times> nat) \<times> nat \<times> nat) hm" where
  "gru_backward_h sigmoid out_grad x prev_h kern recurrent_kernel =
     bindH (floatsH out_grad) (\<lambda>gv.
     bindH (floatsH x) (\<lambda>xv.
     bindH (floatsH prev_h) (\<lambda>hv.
     bindH (floatsH kern) (\<lambda>kv.
     bindH (floatsH recurrent_kernel) (\<lambda>rv.
     bindH (liftE (gru_backward sigmoid gv xv hv kv rv))
       (\<lambda>((x_grad, prev_h_grad), kernel_grad, r_kernel_grad).
     bindH (newH (FloatArray x_grad)) (\<lambda>a1.
     bindH (newH (FloatArray prev_h_grad)) (\<lambda>a2.
     bindH (newH (FloatArray kernel_grad)) (\<lambda>a3.
     bindH (newH (FloatArray r_kernel_grad)) (\<lambda>a4.
       returnH ((a1, a2), a3, a4)))))))))))"

text \<open>
  Softmax cross entropy, free functions and class: \<open>backward\<close> subtracts and divides in
  place in \<open>in_grad\<close>, a copy of \<open>probs\<close>. The labels are a one-dimensional array of
  integers.
\<close>

definition softmax_cross_entropy_forward_h :: "nat \<Rightarrow> nat \<Rightarrow> (real \<times> nat) hm" where
  "softmax_cross_entropy_forward_h input labels =
     bindH (floatsH input) (\<lambda>x.
     bindH (intsH labels) (\<lambda>l.
     bindH (liftE (softmax_cross_entropy_forward x (data l))) (\<lambda>(loss, probs).
     bindH (newH (FloatArray probs)) (\<lambda>pa.
       returnH (loss, pa)))))"

definition softmax_cross_entropy_backward_h :: "nat \<Rightarrow> nat \<Rightarrow> nat hm" where
  "softmax_cross_entropy_backward_h input labels =
     bindH (floatsH input) (\<lambda>x.
     bindH (intsH labels) (\<lambda>l.
     let batch = length (data l) in
     bindH (new_floats (thenE (softmax_log_probs x) (\<lambda>lp. Inr (nd_map exp lp)))) (\<lambda>probs.
     bindH (floatsH probs) (\<lambda>pv.
     bindH (newH (FloatArray pv)) (\<lambda>in_grad.
     bindH (updateH in_grad (\<lambda>a. sub_one_at_labels a (data l))) (\<lambda>u.
     bindH (updateH in_grad (\<lambda>a. if batch = 0 then Inl Unmodelled
                                   else Inr (nd_map (\<lambda>v. v / real batch) a))) (\<lambda>u.
       returnH in_grad)))))))"

definition sce_forward_h :: "nat \<Rightarrow> nat \<Rightarrow> (real \<times> nat) hm" where
  "sce_forward_h input labels =
     bindH (floatsH input) (\<lambda>x.
     bindH (intsH labels) (\<lambda>l.
     bindH (liftE (sce_forward x (data l))) (\<lambda>(loss, probs).
     bindH (newH (FloatArray probs)) (\<lambda>pa.
       returnH (loss, pa)))))"

definition sce_backward_h :: "nat \<Rightarrow> nat \<Rightarrow> nat hm" where
  "sce_backward_h input labels =
     bindH (floatsH input) (\<lambda>x.
     bindH (intsH labels) (\<lambda>l.
     let batch = length (data l) in
     bindH (new_floats (thenE (softmax_log_probs x) (\<lambda>lp. Inr (nd_map exp lp)))) (\<lambda>probs.
     bindH (floatsH probs) (\<lambda>pv.
     bindH (newH (FloatArray pv)) (\<lambda>in_grad.
     bindH (updateH in_grad (\<lambda>a. sub_one_at_labels a (data l))) (\<lambda>u.
     bindH (updateH in_grad (\<lambda>a. if batch = 0 then Inl Unmodelled
                                   else Inr (nd_map (\<lambda>v. v / real batch) a))) (\<lambda>u.
       returnH in_grad)))))))"

text \<open>
  What a call returns, read from the store after the call: the array at the address it
  returns, or the three arrays at the three addresses.
\<close>

definition result_floats :: "nat hm \<Rightarrow> heap \<Rightarrow> py_error + real ndarray" where
  "result_floats m h =
     (case m h of
        (Inl e, h') \<Rightarrow> Inl e
      | (Inr p, h') \<Rightarrow> (case cells h' p of FloatArray a \<Rightarrow> Inr a | IntArray a \<Rightarrow> Inl Unmodelled))"

definition result_floats3 :: "(nat \<times> nat \<times> nat) hm \<Rightarrow> heap
     \<Rightarrow> py_error + real ndarray \<times> real ndarray \<times> real ndarray" where
  "result_floats3 m h =
     (case m h of
        (Inl e, h') \<Rightarrow> Inl e
      | (Inr (p, q, r), h') \<Rightarrow>
          (case (cells h' p, cells h' q, cells h' r) of
             (FloatArray a, FloatArray b, FloatArray c) \<Rightarrow> Inr (a, b, c)
           | _ \<Rightarrow> Inl Unmodelled))"

section \<open>The output size as the specification states it\<close>


section \<open>Properties of the array primitives\<close>

lemma thenE_Inr_iff: "thenE x f = Inr y \<longleftrightarrow> (\<exists>v. x = Inr v \<and> f v = Inr y)"
  by (cases x) (simp_all add: thenE_def)

lemma thenE_Inr [simp]: "thenE (Inr v) f = f v"
  by (simp add: thenE_def)

lemma thenE_Inl [simp]: "thenE (Inl e) f = Inl e"
  by (simp add: thenE_def)

lemma shape_tabulate [simp]: "shape (tabulate sh f) = sh"
  by (simp add: tabulate_def)

lemma shape_np_transpose [simp]: "shape (np_transpose a perm) = map (\<lambda>ax. shape a ! ax) perm"
  by (simp add: np_transpose_def)

lemma transposeE_Inr: "transposeE a perm = Inr b \<Longrightarrow> shape b = map (\<lambda>ax. shape a ! ax) perm"
  by (auto simp: transposeE_def split: if_splits)

lemma np_reshape_known:
  "np_reshape a ds = Inr b \<Longrightarrow> - 1 \<notin> set ds \<Longrightarrow> shape b = map nat ds \<and> data b = data a"
  by (auto simp: np_reshape_def Let_def split: if_splits)

lemma floor_output_size:
  "\<lfloor>(real n + real p - real k) / real s\<rfloor> = (int n + int p - int k) div int s"
proof -
  have "(real n + real p - real k) / real s
        = real_of_int (int n + int p - int k) / real_of_int (int s)"
    by simp
  then show ?thesis
    by (simp only: floor_divide_of_int_eq)
qed

lemma get_output_size_Inr:
  "get_output_size n k p s = Inr v \<longleftrightarrow> s \<noteq> 0 \<and> v = (int n + int p - int k) div int s + 1"
  by (auto simp: get_output_size_def floor_output_size)

lemma output_sizes_Inr:
  "output_sizes n_h n_w k_h k_w p s = Inr (a, b) \<Longrightarrow>
     s \<noteq> 0 \<and> int a = (int n_h + int p - int k_h) div int s + 1
     \<and> int b = (int n_w + int p - int k_w) div int s + 1"
  by (auto simp: output_sizes_def thenE_Inr_iff get_output_size_Inr split: if_splits)

lemma conv_img2col_sizes:
  "conv_img2col X N c_i n_h n_w k_h k_w p s = Inr (X_hat, a, b) \<Longrightarrow>
     output_sizes n_h n_w k_h k_w p s = Inr (a, b)"
  by (auto simp: conv_img2col_def thenE_Inr_iff split: prod.splits)

lemma np_reshape4_shape:
  "np_reshape a [int d0, int d1, int d2, int d3] = Inr b \<Longrightarrow> shape b = [d0, d1, d2, d3]"
  by (auto simp: np_reshape_def Let_def split: if_splits)

lemma conv_forward_shape:
  assumes ok: "conv_forward cp input weights bias = Inr out"
    and sh: "shape input = [B, C, H, W]"
  shows "conv_stride cp \<noteq> 0 \<and>
     shape out = [B, out_channel cp,
        nat ((int H + int (conv_pad cp) - int (kernel_h cp)) div int (conv_stride cp) + 1),
        nat ((int W + int (conv_pad cp) - int (kernel_w cp)) div int (conv_stride cp) + 1)]"
proof -
  from ok sh obtain X_pad X_hat oh ow Y outp where
    i2c: "conv_img2col X_pad B C H W (kernel_h cp) (kernel_w cp) (conv_pad cp) (conv_stride cp)
            = Inr (X_hat, oh, ow)"
    and re: "np_reshape Y [int (out_channel cp), int oh, int ow, int B] = Inr outp"
    and tr: "transposeE outp [3, 0, 1, 2] = Inr out"
    by (auto simp: conv_forward_def Let_def thenE_Inr_iff split: prod.splits)
  from conv_img2col_sizes [OF i2c] have
    sz: "output_sizes H W (kernel_h cp) (kernel_w cp) (conv_pad cp) (conv_stride cp) = Inr (oh, ow)" .
  note o = output_sizes_Inr [OF sz]
  have "shape outp = [out_channel cp, oh, ow, B]"
    using re by (rule np_reshape4_shape)
  then have "shape out = [B, out_channel cp, oh, ow]"
    using transposeE_Inr [OF tr] by simp
  moreover have "oh = nat ((int H + int (conv_pad cp) - int (kernel_h cp)) div int (conv_stride cp) + 1)"
    "ow = nat ((int W + int (conv_pad cp) - int (kernel_w cp)) div int (conv_stride cp) + 1)"
    using o by linarith+
  ultimately show ?thesis using o by simp
qed

lemma foldE_invariant:
  assumes "foldE f s xs = Inr r" and "P s"
    and step: "\<And>s x s'. P s \<Longrightarrow> f s x = Inr s' \<Longrightarrow> P s'"
  shows "P r"
  using assms(1,2)
proof (induction xs arbitrary: s)
  case Nil
  then show ?case by simp
next
  case (Cons x xs)
  then show ?case by (auto simp: thenE_Inr_iff intro: step)
qed

lemma shape_tab4 [simp]: "shape (tab4 a b c d f) = [a, b, c, d]"
  by (simp add: tab4_def)
lemma shape_tab2 [simp]: "shape (tab2 a b f) = [a, b]"
  by (simp add: tab2_def)
lemma shape_tab3 [simp]: "shape (tab3 a b c f) = [a, b, c]"
  by (simp add: tab3_def)
lemma shape_tab5 [simp]: "shape (tab5 a b c d e f) = [a, b, c, d, e]"
  by (simp add: tab5_def)
lemma shape_np_zeros [simp]: "shape (np_zeros sh) = sh"
  by (simp add: np_zeros_def)

lemma assign_ij_shape:
  "assign_ij outp i j m = Inr r \<Longrightarrow> shape outp = [a, b, c, d] \<Longrightarrow> shape r = [a, b, c, d]"
  by (auto simp: assign_ij_def split: if_splits)

lemma pool_forward_step_shape:
  "pool_forward_step pp X outp ij = Inr r \<Longrightarrow> shape outp = [a, b, c, d] \<Longrightarrow> shape r = [a, b, c, d]"
  by (auto simp: pool_forward_step_def Let_def thenE_Inr_iff split: prod.splits if_splits
      dest: assign_ij_shape)

lemma pool_forward_shape:
  assumes ok: "pool_forward pp input = Inr out"
    and sh: "shape input = [B, C, H, W]"
  shows "pool_stride pp \<noteq> 0 \<and>
     shape out = [B, C,
        nat ((int H + int (pool_pad pp) - int (pool_height pp)) div int (pool_stride pp) + 1),
        nat ((int W + int (pool_pad pp) - int (pool_width pp)) div int (pool_stride pp) + 1)]"
proof -
  from ok sh obtain oh ow X_pad outp where
    oh: "get_output_size H (pool_height pp) (pool_pad pp) (pool_stride pp) = Inr oh"
    and ow: "get_output_size W (pool_width pp) (pool_pad pp) (pool_stride pp) = Inr ow"
    and loop: "foldE (pool_forward_step pp X_pad) (np_zeros [nat oh, nat ow, B, C])
                 (List.product [0..<nat oh] [0..<nat ow]) = Inr outp"
    and tr: "transposeE outp [2, 3, 0, 1] = Inr out"
    by (auto simp: pool_forward_def Let_def thenE_Inr_iff split: if_splits)
  have "shape outp = [nat oh, nat ow, B, C]"
    by (rule foldE_invariant [OF loop]) (auto dest: pool_forward_step_shape)
  then have "shape out = [B, C, nat oh, nat ow]"
    using transposeE_Inr [OF tr] by simp
  then show ?thesis
    using oh ow by (simp add: get_output_size_Inr)
qed


lemma conv_forward_fn_shape:
  assumes ok: "conv_forward_fn input weights bias cp = Inr out"
    and sh: "shape input = [B, C, H, W]"
  shows "conv_stride cp \<noteq> 0 \<and>
     shape out = [B, out_channel cp,
        nat (1 + (int H - int (kernel_h cp) + 2 * int (conv_pad cp)) div int (conv_stride cp)),
        nat (1 + (int W - int (kernel_w cp) + 2 * int (conv_pad cp)) div int (conv_stride cp))]"
proof -
  let ?oh = "1 + (int H - int (kernel_h cp) + 2 * int (conv_pad cp)) div int (conv_stride cp)"
  let ?ow = "1 + (int W - int (kernel_w cp) + 2 * int (conv_pad cp)) div int (conv_stride cp)"
  from ok sh obtain outp where
    s: "conv_stride cp \<noteq> 0" and nn: "0 \<le> ?oh" "0 \<le> ?ow"
    and re: "np_reshape outp [int B, int (out_channel cp), ?oh, ?ow] = Inr out"
    by (auto simp: conv_forward_fn_def Let_def thenE_Inr_iff py_floordiv_def split: if_splits)
  from nn have "- 1 \<notin> set [int B, int (out_channel cp), ?oh, ?ow]"
    by auto
  from np_reshape_known [OF re this] show ?thesis
    using s by simp
qed




lemma pool_forward_fn_unsupported:
  assumes "pool_type pp \<noteq> ''max''" and "pool_type pp \<noteq> ''avg''"
  shows "\<exists>e. pool_forward_fn input pp = Inl e"
proof (cases "pool_forward_fn input pp")
  case (Inl e)
  then show ?thesis by blast
next
  case (Inr out)
  then have False
    using assms
    by (auto simp: pool_forward_fn_def Let_def thenE_Inr_iff split: list.splits if_splits)
  then show ?thesis ..
qed

lemma product_upt_Cons:
  "0 < a \<Longrightarrow> 0 < b \<Longrightarrow> \<exists>rest. List.product [0..<a] [0..<b] = (0, 0) # rest"
  by (cases a; cases b) (simp_all add: upt_conv_Cons del: upt_Suc)

lemma pool_forward_unsupported:
  assumes ty: "pool_type pp \<noteq> ''max''" "pool_type pp \<noteq> ''avg''"
    and sh: "shape input = [B, C, H, W]"
    and s: "pool_stride pp \<noteq> 0"
    and oh: "0 < (int H + int (pool_pad pp) - int (pool_height pp)) div int (pool_stride pp) + 1"
    and ow: "0 < (int W + int (pool_pad pp) - int (pool_width pp)) div int (pool_stride pp) + 1"
  shows "pool_forward pp input = Inl TypeError"
proof -
  let ?oh = "(int H + int (pool_pad pp) - int (pool_height pp)) div int (pool_stride pp) + 1"
  let ?ow = "(int W + int (pool_pad pp) - int (pool_width pp)) div int (pool_stride pp) + 1"
  have g1: "get_output_size H (pool_height pp) (pool_pad pp) (pool_stride pp) = Inr ?oh"
    and g2: "get_output_size W (pool_width pp) (pool_pad pp) (pool_stride pp) = Inr ?ow"
    using s by (simp_all add: get_output_size_Inr)
  obtain rest where pr: "List.product [0..<nat ?oh] [0..<nat ?ow] = (0, 0) # rest"
    using product_upt_Cons [of "nat ?oh" "nat ?ow"] oh ow by auto
  have step: "pool_forward_step pp X z (0, 0) = Inl TypeError" for X z
    using ty by (simp add: pool_forward_step_def Let_def)
  show ?thesis
    using sh oh ow
    by (simp add: pool_forward_def g1 g2 np_pad4_def Let_def pr step)
qed

section \<open>Output sizes of the forward passes\<close>













section \<open>Shapes of the gradients of convolution\<close>

lemma shape_add_at4_fold:
  "shape (foldl (\<lambda>acc idx. acc\<lparr>data := g acc idx\<rparr>) A idxs) = shape A"
  by (induction idxs arbitrary: A) simp_all

lemma add_at4_shape: "add_at4 A ci hi wi vals = Inr A' \<Longrightarrow> shape A' = shape A"
  by (auto simp: add_at4_def thenE_Inr_iff Let_def shape_add_at4_fold
      split: list.splits if_splits)

lemma conv_col2img_shape:
  assumes "conv_col2img dX_hat N c_i n_h n_w k_h k_w p s = Inr dX"
  shows "shape dX = [N, c_i, n_h - p, n_w - p]"
proof -
  from assms obtain dX_pad where
    a: "shape dX_pad = [N, c_i, n_h + p, n_w + p]"
    and r: "dX = (if p \<noteq> 0 then slice4 dX_pad p (n_h + p - p) p (n_w + p - p) else dX_pad)"
    by (auto simp: conv_col2img_def thenE_Inr_iff Let_def dest!: add_at4_shape
        split: prod.splits if_splits)
  show ?thesis
    using a r by (auto simp: slice4_def Let_def)
qed

lemma conv_backward_in_grad_shape:
  assumes ok: "conv_backward cp out_grad x w b = Inr (in_grad, w_grad, b_grad)"
    and sh: "shape x = [B, C, H, W]"
  shows "shape in_grad = [B, C, H - conv_pad cp, W - conv_pad cp]"
proof -
  from ok sh obtain dX_hat where
    "conv_col2img dX_hat B C H W (kernel_h cp) (kernel_w cp) (conv_pad cp) (conv_stride cp)
       = Inr in_grad"
    by (auto simp: conv_backward_def Let_def thenE_Inr_iff split: prod.splits)
  then show ?thesis by (rule conv_col2img_shape)
qed

text \<open>
  Claim C2, on the code: \<open>conv.col2img\<close> strips \<open>pad\<close> rows and columns from each side of a
  buffer that holds \<open>pad\<close> more than the input in all, so for \<open>pad > 0\<close> the input gradient
  of \<open>conv.backward\<close> is smaller than the input. For a \<open>3 \<times> 3\<close> input, a \<open>3 \<times> 3\<close> kernel,
  \<open>pad = 2\<close> and \<open>stride = 1\<close> the gradient of the input has the shape \<open>(1, 1, 1, 1)\<close>, not
  \<open>(1, 1, 3, 3)\<close>; the gradients of the weights and of the bias have the shapes of the
  weights and of the bias.
\<close>

theorem conv_backward_input_gradient_shape:
  "conv_backward
     \<lparr>kernel_h = 3, kernel_w = 3, conv_stride = 1, conv_pad = 2, in_channel = 1,
        out_channel = 1\<rparr>
     \<lparr>shape = [1, 1, 3, 3], data = [1, 1, 1, 1, 1, 1, 1, 1, 1]\<rparr>
     \<lparr>shape = [1, 1, 3, 3], data = [1, 2, 3, 4, 5, 6, 7, 8, 9]\<rparr>
     \<lparr>shape = [1, 1, 3, 3], data = [1, 0, 0, 0, 1, 0, 0, 0, 1]\<rparr>
     (array1 [0])
   = Inr (\<lparr>shape = [1, 1, 1, 1], data = [3]\<rparr>,
          \<lparr>shape = [1, 1, 3, 3], data = [12, 21, 16, 27, 45, 33, 24, 39, 28]\<rparr>,
          array1 [9])"
  by code_simp

section \<open>Unsupported pooling types\<close>

text \<open>
  Claim C6, on the code: \<open>pool.forward\<close> checks the pooling type inside its loops over the
  output positions, so with an empty output it returns without an exception. For a
  \<open>1 \<times> 1\<close> input and a \<open>2 \<times> 2\<close> window of the unsupported type \<open>min\<close> it returns an empty
  array. (With at least one output position it raises, \<open>pool_forward_unsupported\<close>, and the
  free function always raises, \<open>pool_forward_fn_unsupported\<close>.)
\<close>

theorem pool_forward_unsupported_empty_output:
  "pool_forward
     \<lparr>pool_type = ''min'', pool_height = 2, pool_width = 2, pool_stride = 2, pool_pad = 0\<rparr>
     \<lparr>shape = [1, 1, 1, 1], data = [5]\<rparr>
   = Inr \<lparr>shape = [1, 1, 0, 0], data = []\<rparr>"
  by code_simp

section \<open>Max pooling backward\<close>

text \<open>
  Claim C7, on the code: \<open>pool.backward\<close> pads \<open>pad div 2\<close> before the input and reads
  the gradient of the input back from offset \<open>pad\<close>, so for \<open>pad > 0\<close> the gradient lands
  on the wrong positions. For the input \<open>[[1, 2], [3, 4]]\<close>, a \<open>2 \<times> 2\<close> window, \<open>stride = 1\<close>
  and \<open>pad = 2\<close> the element 4 is the maximum of the four patches whose output gradients
  are \<open>10^4\<close>, \<open>10^5\<close>, \<open>10^7\<close> and \<open>10^8\<close>; their sum is returned at the position of the
  element 1, which is the maximum of the first patch only, and the position of the
  element 4 receives nothing.
\<close>

theorem pool_backward_padded_misrouted:
  "pool_backward
     \<lparr>pool_type = ''max'', pool_height = 2, pool_width = 2, pool_stride = 1, pool_pad = 2\<rparr>
     \<lparr>shape = [1, 1, 3, 3],
        data = [1, 10, 100, 1000, 10000, 100000, 1000000, 10000000, 100000000]\<rparr>
     \<lparr>shape = [1, 1, 2, 2], data = [1, 2, 3, 4]\<rparr>
   = Inr \<lparr>shape = [1, 1, 2, 2], data = [110110000, 0, 0, 0]\<rparr>"
  by code_simp

section \<open>Properties of dropout\<close>

lemma dropout_forward_fn_zero_division:
  "fst (dropout_forward_fn R e g x r True sd) = Inl ZeroDivisionError \<longleftrightarrow> r = 1"
  by (auto simp: dropout_forward_fn_def np_random_seed_def Let_def
      split: sum.splits prod.splits option.splits if_splits)

lemma dropout_forward_zero_division:
  "fst (dropout_forward R e g (self\<lparr>training := True\<rparr>) x) = Inl ZeroDivisionError
     \<longleftrightarrow> rate self = 1"
  by (auto simp: dropout_forward_def np_random_seed_def Let_def
      split: sum.splits prod.splits option.splits if_splits)

lemma dropout_forward_fn_returns:
  assumes "r \<noteq> 1" and "valid_seed sd"
  shows "\<exists>y m. fst (dropout_forward_fn R e g x r True sd) = Inr (y, Some m)"
  using assms
  by (auto simp: dropout_forward_fn_def np_random_seed_def valid_seed_def Let_def
      split: sum.splits prod.splits option.splits if_splits)

lemma dropout_forward_returns:
  assumes "rate self \<noteq> 1" and "valid_seed (seed self)"
  shows "\<exists>y. fst (dropout_forward R e g (self\<lparr>training := True\<rparr>) x) = Inr y"
  using assms
  by (auto simp: dropout_forward_def np_random_seed_def valid_seed_def Let_def
      split: sum.splits prod.splits option.splits if_splits)

text \<open>
  Claim C10. In training mode the scale \<open>1 / (1 - rate)\<close> is computed without a guard:
  the forward pass of the free function and of the class raises \<open>ZeroDivisionError\<close>
  exactly when \<open>rate = 1\<close>, and for every rate in \<open>[0, 1)\<close> (and a seed that numpy accepts)
  the divisor is not zero and the forward pass returns an output.
\<close>

theorem dropout_scale_division:
  "(fst (dropout_forward_fn R e g x r True sd) = Inl ZeroDivisionError) = (r = 1)
   \<and> (fst (dropout_forward R e g (self\<lparr>training := True\<rparr>) x) = Inl ZeroDivisionError)
       = (rate self = 1)
   \<and> (0 \<le> r \<and> r < 1 \<and> valid_seed sd \<longrightarrow>
        1 - r \<noteq> 0
        \<and> (\<exists>y m. fst (dropout_forward_fn R e g x r True sd) = Inr (y, Some m))
        \<and> (\<exists>y. fst (dropout_forward R e g (dropout_init r True sd) x) = Inr y))"
proof (intro conjI impI)
  show "(fst (dropout_forward_fn R e g x r True sd) = Inl ZeroDivisionError) = (r = 1)"
    by (rule dropout_forward_fn_zero_division)
  show "(fst (dropout_forward R e g (self\<lparr>training := True\<rparr>) x) = Inl ZeroDivisionError)
       = (rate self = 1)"
    by (rule dropout_forward_zero_division)
next
  assume a: "0 \<le> r \<and> r < 1 \<and> valid_seed sd"
  then show "1 - r \<noteq> 0" by simp
  from a show "\<exists>y m. fst (dropout_forward_fn R e g x r True sd) = Inr (y, Some m)"
    by (intro dropout_forward_fn_returns) auto
  from a dropout_forward_returns [of "dropout_init r True sd" R e g x]
  show "\<exists>y. fst (dropout_forward R e g (dropout_init r True sd) x) = Inr y"
    by (simp add: dropout_init_def)
qed

theorem dropout_scale_division_witness:
  "(0::real) \<le> 1 / 2 \<and> (1 / 2 :: real) < 1 \<and> valid_seed (Some 1234)
   \<and> fst (dropout_forward_fn const_rng 0 0 (array1 [1, 2]) (1 / 2) True (Some 1234))
       = Inr (array1 [2, 4], Some (array1 [1, 1]))
   \<and> fst (dropout_forward const_rng 0 0 (dropout_init (1 / 2) True (Some 1234)) (array1 [1, 2]))
       = Inr (array1 [2, 4])
   \<and> fst (dropout_forward_fn const_rng 0 0 (array1 [1, 2]) 1 True (Some 1234))
       = Inl ZeroDivisionError"
proof -
  have v: "valid_seed (Some 1234)"
    by (simp add: valid_seed_def)
  have e1: "fst (dropout_forward_fn const_rng 0 0 (array1 [1, 2]) (1 / 2) True (Some 1234))
       = Inr (array1 [2, 4], Some (array1 [1, 1]))"
    by (simp add: dropout_forward_fn_def np_random_seed_def np_random_sample_def const_rng_def
        nd_map_def nd_zip_def array1_def Let_def)
  have e2: "fst (dropout_forward const_rng 0 0 (dropout_init (1 / 2) True (Some 1234))
                  (array1 [1, 2])) = Inr (array1 [2, 4])"
    by (simp add: dropout_forward_def np_random_seed_def np_random_sample_def const_rng_def
        nd_map_def nd_zip_def array1_def dropout_init_def Let_def)
  have e3: "fst (dropout_forward_fn const_rng 0 0 (array1 [1, 2]) 1 True (Some 1234))
       = Inl ZeroDivisionError"
    using dropout_scale_division [of const_rng 0 0 "array1 [1, 2]" 1 "Some 1234"] by simp
  have "1 - (1 / 2 :: real) \<noteq> 0"
    using dropout_scale_division [of const_rng 0 0 "array1 [1, 2]" "1 / 2" "Some 1234"] v
    by simp
  then show ?thesis using v e1 e2 e3 by simp
qed

lemma dropout_forward_fn_seeded:
  "fst (dropout_forward_fn R e1 g1 x r True (Some k))
     = fst (dropout_forward_fn R e2 g2 x r True (Some k))"
  by (simp add: dropout_forward_fn_def np_random_seed_def Let_def
      split: sum.splits prod.splits)

lemma dropout_forward_seeded:
  assumes "dropout_forward R e1 g1 (self\<lparr>seed := Some k, training := True\<rparr>) x = (o1, self1, g1')"
    and "dropout_forward R e2 g2 self1 x = (o2, self2, g2')"
  shows "o1 = o2 \<and> mask self1 = mask self2"
  using assms
  by (auto simp: dropout_forward_def np_random_seed_def Let_def
      split: sum.splits prod.splits if_splits)

text \<open>
  Claim C5. With a fixed integer seed and \<open>training = True\<close>, a second forward call on
  the same input and rate gives the result of the first (the same output and the same
  mask), whatever state the first call left the generator in: for the free function,
  and for two calls in a row on one object of the class. With \<open>training = False\<close> the
  output is the input, the free function returns no mask, the object keeps its mask
  attribute, and the generator is not touched.
\<close>

theorem dropout_determinism:
  "fst (dropout_forward_fn R e1 g1 x r True (Some k))
     = fst (dropout_forward_fn R e2 (snd (dropout_forward_fn R e1 g1 x r True (Some k))) x r True
              (Some k))
   \<and> (case dropout_forward R e1 g1 (self\<lparr>seed := Some k, training := True\<rparr>) x of
        (o1, self1, g1') \<Rightarrow>
          (case dropout_forward R e2 g1' self1 x of
             (o2, self2, g2') \<Rightarrow> o1 = o2 \<and> mask self1 = mask self2))
   \<and> dropout_forward_fn R e1 g1 x r False sd = (Inr (x, None), g1)
   \<and> dropout_forward R e1 g1 (self\<lparr>training := False\<rparr>) x
       = (Inr x, self\<lparr>training := False\<rparr>, g1)"
proof (intro conjI)
  show "fst (dropout_forward_fn R e1 g1 x r True (Some k))
     = fst (dropout_forward_fn R e2 (snd (dropout_forward_fn R e1 g1 x r True (Some k))) x r True
              (Some k))"
    by (rule dropout_forward_fn_seeded)
  show "case dropout_forward R e1 g1 (self\<lparr>seed := Some k, training := True\<rparr>) x of
        (o1, self1, g1') \<Rightarrow>
          (case dropout_forward R e2 g1' self1 x of
             (o2, self2, g2') \<Rightarrow> o1 = o2 \<and> mask self1 = mask self2)"
    using dropout_forward_seeded by (fastforce split: prod.splits)
  show "dropout_forward_fn R e1 g1 x r False sd = (Inr (x, None), g1)"
    by (simp add: dropout_forward_fn_def)
  show "dropout_forward R e1 g1 (self\<lparr>training := False\<rparr>) x
       = (Inr x, self\<lparr>training := False\<rparr>, g1)"
    by (simp add: dropout_forward_def)
qed

text \<open>Without a seed two calls can differ.\<close>

lemma dropout_unseeded_differs:
  "fst (dropout_forward_fn step_rng 0 0 (array1 [1]) (1 / 2) True None)
     \<noteq> fst (dropout_forward_fn step_rng 1 0 (array1 [1]) (1 / 2) True None)"
  by (simp add: dropout_forward_fn_def np_random_seed_def np_random_sample_def step_rng_def
      nd_map_def nd_zip_def array1_def Let_def)

theorem dropout_determinism_witness:
  "fst (dropout_forward_fn step_rng 5 7 (array1 [1, 2]) (1 / 2) True (Some 1234))
     = Inr (array1 [0, 0], Some (array1 [0, 0]))
   \<and> fst (dropout_forward_fn step_rng 9
            (snd (dropout_forward_fn step_rng 5 7 (array1 [1, 2]) (1 / 2) True (Some 1234)))
            (array1 [1, 2]) (1 / 2) True (Some 1234))
     = Inr (array1 [0, 0], Some (array1 [0, 0]))"
proof -
  have e: "fst (dropout_forward_fn step_rng 5 7 (array1 [1, 2]) (1 / 2) True (Some 1234))
     = Inr (array1 [0, 0], Some (array1 [0, 0]))"
    by (simp add: dropout_forward_fn_def np_random_seed_def np_random_sample_def step_rng_def
      nd_map_def nd_zip_def array1_def Let_def)
  with dropout_determinism [of step_rng 5 7 "array1 [1, 2]" "1 / 2" 1234 9]
  show ?thesis by simp
qed

section \<open>Properties of indexing\<close>

lemma ravel_less: "list_all2 (<) idx sh \<Longrightarrow> ravel sh idx < prod_list sh"
proof (induction sh idx rule: ravel.induct)
  case (1 d ds i js)
  then have i: "i < d" and r: "ravel ds js < prod_list ds" by auto
  have "i * prod_list ds + ravel ds js < Suc i * prod_list ds"
    using r by simp
  also have "\<dots> \<le> d * prod_list ds"
    using i by (intro mult_le_mono1) simp
  finally show ?case by simp
qed (auto simp: list_all2_Cons2)

lemma unravel_ravel: "list_all2 (<) idx sh \<Longrightarrow> unravel sh (ravel sh idx) = idx"
proof (induction sh idx rule: ravel.induct)
  case (1 d ds i js)
  then have r: "ravel ds js < prod_list ds"
    by (auto intro: ravel_less)
  with 1 show ?case by auto
qed (auto simp: list_all2_Cons2)

lemma unravel_valid: "k < prod_list sh \<Longrightarrow> list_all2 (<) (unravel sh k) sh"
proof (induction sh arbitrary: k)
  case Nil
  then show ?case by simp
next
  case (Cons d ds)
  have p: "0 < prod_list ds"
    using Cons.prems by (cases "prod_list ds") auto
  have "k div prod_list ds < d"
    using Cons.prems p by (simp add: less_mult_imp_div_less mult.commute)
  moreover have "k mod prod_list ds < prod_list ds"
    using p by simp
  ultimately show ?case using Cons.IH by simp
qed

lemma nd_at_tabulate: "list_all2 (<) idx sh \<Longrightarrow> nd_at (tabulate sh f) idx = f idx"
  by (simp add: nd_at_def tabulate_def ravel_less unravel_ravel)

lemma tabulate_cong:
  assumes "\<And>idx. list_all2 (<) idx sh \<Longrightarrow> f idx = g idx"
  shows "tabulate sh f = tabulate sh g"
  unfolding tabulate_def using assms by (simp add: unravel_valid)

lemma at2_tab2 [simp]: "i < r \<Longrightarrow> j < c \<Longrightarrow> at2 (tab2 r c f) i j = f i j"
  by (simp add: at2_def tab2_def nd_at_tabulate)

lemma at3_tab3 [simp]: "i < a \<Longrightarrow> j < b \<Longrightarrow> k < c \<Longrightarrow> at3 (tab3 a b c f) i j k = f i j k"
  by (simp add: at3_def tab3_def nd_at_tabulate)

lemma at4_tab4 [simp]:
  "n < a \<Longrightarrow> c < b \<Longrightarrow> h < d \<Longrightarrow> w < e \<Longrightarrow> at4 (tab4 a b d e f) n c h w = f n c h w"
  by (simp add: at4_def tab4_def nd_at_tabulate)

lemma list_all2_less2:
  "list_all2 (<) idx [r, c] \<longleftrightarrow> (\<exists>i j. idx = [i, j] \<and> i < r \<and> j < c)"
  by (auto simp: list_all2_Cons2)

lemma tab2_cong:
  assumes "\<And>i j. i < r \<Longrightarrow> j < c \<Longrightarrow> f i j = g i j"
  shows "tab2 r c f = tab2 r c g"
  unfolding tab2_def by (rule tabulate_cong) (auto simp: list_all2_less2 assms)

lemma tabulate2_eq_tab2:
  assumes "\<And>i j. i < r \<Longrightarrow> j < c \<Longrightarrow> f [i, j] = g i j"
  shows "tabulate [r, c] f = tab2 r c g"
  unfolding tab2_def by (rule tabulate_cong) (auto simp: list_all2_less2 assms)

lemma nd_map_tab2: "nd_map h (tab2 r c f) = tab2 r c (\<lambda>i j. h (f i j))"
  by (simp add: nd_map_def tab2_def tabulate_def)

lemma bidx_less [simp]: "i < d \<Longrightarrow> bidx d i = i"
  by (auto simp: bidx_def)

lemma bidx_one [simp]: "bidx (Suc 0) i = 0"
  by (simp add: bidx_def)

lemma broadcast_op_col:
  assumes "shape a = [B, C]" and "shape b = [B, 1]"
  shows "broadcast_op f a b = Inr (tab2 B C (\<lambda>i j. f (at2 a i j) (at2 b i 0)))"
proof -
  have "bshape [B, C] [B, 1] = Inr [B, C]"
    by (simp add: bshape_def lpad_def bdim_def)
  moreover have "tabulate [B, C] (\<lambda>idx. f (nd_at a (bcast_idx [B, C] idx))
                                  (nd_at b (bcast_idx [B, 1] idx)))
        = tab2 B C (\<lambda>i j. f (at2 a i j) (at2 b i 0))"
    by (rule tabulate2_eq_tab2) (simp add: bcast_idx_def at2_def)
  ultimately show ?thesis
    using assms by (simp add: broadcast_op_def)
qed

section \<open>Properties of softmax cross entropy\<close>

lemma sum_list_upt_cong:
  "(\<And>k. k < n \<Longrightarrow> f k = g k) \<Longrightarrow> (\<Sum>k\<leftarrow>[0..<n]. f k) = (\<Sum>k\<leftarrow>[0..<n]. g k)"
  by (rule arg_cong [where f = sum_list]) simp

lemma map_upt_cong:
  "(\<And>k. k < n \<Longrightarrow> f k = g k) \<Longrightarrow> map f [0..<n] = map g [0..<n]"
  by simp

lemma softmax_log_probs_eq:
  assumes sh: "shape x = [B, C]" and C: "0 < C"
  shows "softmax_log_probs x
     = Inr (tab2 B C (\<lambda>i j. at2 x i j - row_max x i
              - ln ((\<Sum>k\<leftarrow>[0..<C]. exp (at2 x i k - row_max x i)) + eps)))"
proof -
  let ?mx = "tab2 B 1 (\<lambda>i j. row_max x i)"
  let ?shift = "tab2 B C (\<lambda>i j. at2 x i j - row_max x i)"
  let ?Z = "tab2 B 1 (\<lambda>i j. \<Sum>k\<leftarrow>[0..<C]. exp (at2 x i k - row_max x i))"
  have 1: "amax_axis1_keep x = Inr ?mx"
    using sh C by (simp add: amax_axis1_keep_def row_max_def)
  have 2: "broadcast_op (-) x ?mx = Inr ?shift"
    using sh by (simp add: broadcast_op_col cong: tab2_cong)
  have 3: "sum_axis1_keep (nd_map exp ?shift) = Inr ?Z"
    by (simp add: sum_axis1_keep_def nd_map_tab2 cong: tab2_cong sum_list_upt_cong)
  have 4: "broadcast_op (-) ?shift (nd_map (\<lambda>z. ln (z + eps)) ?Z)
      = Inr (tab2 B C (\<lambda>i j. at2 x i j - row_max x i
              - ln ((\<Sum>k\<leftarrow>[0..<C]. exp (at2 x i k - row_max x i)) + eps)))"
    by (simp add: broadcast_op_col nd_map_tab2 cong: tab2_cong)
  show ?thesis
    by (simp only: softmax_log_probs_def 1 2 3 4 thenE_Inr)
qed


lemma exp_log_probs:
  assumes sh: "shape x = [B, C]" and C: "0 < C"
  shows "thenE (softmax_log_probs x) (\<lambda>lp. Inr (nd_map exp lp)) = Inr (spec_probs x)"
  using sh by (simp add: softmax_log_probs_eq [OF sh C] spec_probs_def nd_map_tab2)

lemma at2_spec_probs:
  assumes "shape x = [B, C]" "i < B" "j < C"
  shows "at2 (spec_probs x) i j
     = exp (at2 x i j - row_max x i
            - ln ((\<Sum>k\<leftarrow>[0..<C]. exp (at2 x i k - row_max x i)) + eps))"
  using assms by (simp add: spec_probs_def)

lemma labels_in_range_nonneg:
  assumes "length labels = B" "list_all (\<lambda>l. 0 \<le> l \<and> l < int C) labels"
  shows "labels_in_range B C labels"
  using assms by (auto simp: labels_in_range_def list_all_iff)

lemma softmax_forward_spec:
  assumes sh: "shape x = [B, C]" and len: "length labels = B" and B: "0 < B"
    and lab: "list_all (\<lambda>l. 0 \<le> l \<and> l < int C) labels"
  shows "softmax_cross_entropy_forward x labels = Inr (spec_loss x labels, spec_probs x)"
proof -
  have l: "0 \<le> labels ! i \<and> labels ! i < int C" if "i < B" for i
    using lab len that by (auto simp: list_all_length)
  from l [of 0] B have C: "0 < C" by auto
  let ?lp = "tab2 B C (\<lambda>i j. at2 x i j - row_max x i
              - ln ((\<Sum>k\<leftarrow>[0..<C]. exp (at2 x i k - row_max x i)) + eps))"
  have lp: "softmax_log_probs x = Inr ?lp"
    by (rule softmax_log_probs_eq [OF sh C])
  have pr: "nd_map exp ?lp = spec_probs x"
    using sh by (simp add: spec_probs_def nd_map_tab2)
  have pick: "take_labels ?lp labels
      = Inr (map (\<lambda>i. ln (at2 (spec_probs x) i (nat (labels ! i)))) [0..<length labels])"
  proof -
    have "at2 ?lp i (py_index C (labels ! i)) = ln (at2 (spec_probs x) i (nat (labels ! i)))"
      if "i < B" for i
    proof -
      have n: "nat (labels ! i) < C" using l [OF that] by auto
      show ?thesis
        using l [OF that] that n by (simp add: py_index_def at2_spec_probs [OF sh])
    qed
    then show ?thesis
      using labels_in_range_nonneg [OF len lab] len
      by (simp add: take_labels_def cong: map_upt_cong)
  qed
  show ?thesis
    using B len
    by (simp add: softmax_cross_entropy_forward_def Let_def lp pr pick spec_loss_def)
qed

lemma softmax_backward_spec:
  assumes sh: "shape x = [B, C]" and len: "length labels = B" and B: "0 < B"
    and lab: "list_all (\<lambda>l. 0 \<le> l \<and> l < int C) labels"
  shows "softmax_cross_entropy_backward x labels = Inr (spec_grad x labels)"
proof -
  have l: "0 \<le> labels ! i \<and> labels ! i < int C" if "i < B" for i
    using lab len that by (auto simp: list_all_length)
  from l [of 0] B have C: "0 < C" by auto
  let ?lp = "tab2 B C (\<lambda>i j. at2 x i j - row_max x i
              - ln ((\<Sum>k\<leftarrow>[0..<C]. exp (at2 x i k - row_max x i)) + eps))"
  have lp: "softmax_log_probs x = Inr ?lp"
    by (rule softmax_log_probs_eq [OF sh C])
  have pr: "nd_map exp ?lp = spec_probs x"
    using sh by (simp add: spec_probs_def nd_map_tab2)
  have shp: "shape (spec_probs x) = [B, C]"
    using sh by (simp add: spec_probs_def)
  have sub: "sub_one_at_labels (spec_probs x) labels
      = Inr (tab2 B C (\<lambda>i j. at2 (spec_probs x) i j - at2 (one_hot C labels) i j))"
  proof -
    have "(if i < length labels \<and> j = py_index C (labels ! i)
           then at2 (spec_probs x) i j - 1 else at2 (spec_probs x) i j)
        = at2 (spec_probs x) i j - at2 (one_hot C labels) i j"
      if "i < B" "j < C" for i j
      using that l [OF that(1)] len by (auto simp: one_hot_def py_index_def)
    then show ?thesis
      using labels_in_range_nonneg [OF len lab] shp
      by (simp add: sub_one_at_labels_def cong: tab2_cong)
  qed
  have "softmax_cross_entropy_backward x labels
      = Inr (nd_map (\<lambda>v. v / real B)
               (tab2 B C (\<lambda>i j. at2 (spec_probs x) i j - at2 (one_hot C labels) i j)))"
    using B len by (simp add: softmax_cross_entropy_backward_def Let_def lp pr sub)
  then show ?thesis
    using sh len by (simp add: spec_grad_def nd_map_tab2)
qed

lemma sce_forward_eq: "sce_forward = softmax_cross_entropy_forward"
  by (intro ext) (simp add: sce_forward_def softmax_cross_entropy_forward_def)

lemma sce_backward_eq: "sce_backward = softmax_cross_entropy_backward"
  by (intro ext) (simp add: sce_backward_def softmax_cross_entropy_backward_def)

lemma spec_probs_quotient:
  assumes "shape x = [B, C]" "i < B" "j < C"
  shows "at2 (spec_probs x) i j
     = exp (at2 x i j - row_max x i)
       / ((\<Sum>k\<leftarrow>[0..<C]. exp (at2 x i k - row_max x i)) + eps)"
proof -
  have "0 \<le> (\<Sum>k\<leftarrow>[0..<C]. exp (at2 x i k - row_max x i))"
    by (rule sum_list_nonneg) auto
  moreover have "0 < eps" by (simp add: eps_def)
  ultimately have "0 < (\<Sum>k\<leftarrow>[0..<C]. exp (at2 x i k - row_max x i)) + eps"
    by linarith
  then show ?thesis
    by (simp add: at2_spec_probs [OF assms] exp_diff)
qed

text \<open>
  Claim C4. For logits of shape \<open>(batch, C)\<close> and \<open>batch > 0\<close> labels in \<open>[0, C)\<close>, the forward
  pass returns the negative mean of the logarithm of the probability of the true class,
  together with the probabilities (the softmax of each row shifted by its maximum, with
  \<open>eps = 1e-12\<close> inside the logarithm), and the backward pass returns
  \<open>(probs - one_hot(labels)) / batch\<close> for these same probabilities; for the free functions
  and for the class. Floating-point numbers are idealised as reals.
\<close>

theorem softmax_cross_entropy_spec:
  assumes "shape x = [B, C]" and "length labels = B" and "0 < B"
    and "list_all (\<lambda>l. 0 \<le> l \<and> l < int C) labels"
  shows "softmax_cross_entropy_forward x labels = Inr (spec_loss x labels, spec_probs x)
     \<and> softmax_cross_entropy_backward x labels = Inr (spec_grad x labels)
     \<and> sce_forward x labels = Inr (spec_loss x labels, spec_probs x)
     \<and> sce_backward x labels = Inr (spec_grad x labels)"
  using softmax_forward_spec [OF assms] softmax_backward_spec [OF assms]
  by (simp add: sce_forward_eq sce_backward_eq)

lemma array2_rows_shape: "shape (array2 [[a, b], [c, d]]) = [2, 2]"
  by (simp add: array2_def)

theorem softmax_cross_entropy_spec_witness:
  "shape (array2 [[0, 0], [1, 3 :: real]]) = [2, 2] \<and> length [1, 0 :: int] = 2 \<and> (0::nat) < 2
   \<and> list_all (\<lambda>l. 0 \<le> l \<and> l < int 2) [1, 0]
   \<and> softmax_cross_entropy_forward (array2 [[0, 0], [1, 3]]) [1, 0]
       = Inr (spec_loss (array2 [[0, 0], [1, 3]]) [1, 0], spec_probs (array2 [[0, 0], [1, 3]]))
   \<and> softmax_cross_entropy_backward (array2 [[0, 0], [1, 3]]) [1, 0]
       = Inr (spec_grad (array2 [[0, 0], [1, 3]]) [1, 0])
   \<and> sce_forward (array2 [[0, 0], [1, 3]]) [1, 0]
       = Inr (spec_loss (array2 [[0, 0], [1, 3]]) [1, 0], spec_probs (array2 [[0, 0], [1, 3]]))
   \<and> sce_backward (array2 [[0, 0], [1, 3]]) [1, 0]
       = Inr (spec_grad (array2 [[0, 0], [1, 3]]) [1, 0])"
proof -
  have h: "shape (array2 [[0, 0], [1, 3 :: real]]) = [2, 2]" "length [1, 0 :: int] = 2" "(0::nat) < 2"
    "list_all (\<lambda>l. 0 \<le> l \<and> l < int 2) [1, 0]"
    by (simp_all add: array2_def)
  from softmax_cross_entropy_spec [OF h] h show ?thesis
    by simp
qed

section \<open>Properties of the GRU cell\<close>

lemma shape_nd_map [simp]: "shape (nd_map f a) = shape a"
  by (simp add: nd_map_def)

lemma shape_transpose2 [simp]: "shape m = [a, b] \<Longrightarrow> shape (transpose2 m) = [b, a]"
  by (simp add: transpose2_def upt_rec)











lemma tab2_at2_tab2: "tab2 r c (\<lambda>i j. at2 (tab2 r c g) i j) = tab2 r c g"
  by (rule tab2_cong) simp





section \<open>Calls keep the arrays of their caller\<close>

text \<open>The rules of the invariant, one for each construct of the store.\<close>

lemma preserves_keeps: "(\<And>n. preserves n m (\<lambda>v. True)) \<Longrightarrow> keeps_arrays m"
  unfolding keeps_arrays_def preserves_def by (metis order_refl)

lemma preserves_weaken: "preserves n m Q \<Longrightarrow> (\<And>v. Q v \<Longrightarrow> Q' v) \<Longrightarrow> preserves n m Q'"
  unfolding preserves_def by (auto split: sum.splits)

lemma preserves_return: "Q v \<Longrightarrow> preserves n (returnH v) Q"
  by (simp add: preserves_def returnH_def)

lemma preserves_raise: "preserves n (raiseH e) Q"
  by (simp add: preserves_def raiseH_def)

lemma preserves_lift: "preserves n (liftE x) (\<lambda>v. True)"
  by (simp add: preserves_def liftE_def split: sum.splits)

lemma preserves_new: "preserves n (newH c) (\<lambda>p. n \<le> p)"
  by (simp add: preserves_def newH_def)

lemma preserves_floats: "preserves n (floatsH p) (\<lambda>v. True)"
  by (simp add: preserves_def floatsH_def split: cell.splits)

lemma preserves_ints: "preserves n (intsH p) (\<lambda>v. True)"
  by (simp add: preserves_def intsH_def split: cell.splits)

lemma preserves_store: "n \<le> p \<Longrightarrow> preserves n (storeH p c) (\<lambda>v. True)"
  by (simp add: preserves_def storeH_def)

lemma preserves_bind:
  assumes m: "preserves n m Q" and f: "\<And>v. Q v \<Longrightarrow> preserves n (f v) Q'"
  shows "preserves n (bindH m f) Q'"
  unfolding preserves_def
proof (intro allI impI)
  fix h :: heap
  assume n: "n \<le> next_free h"
  obtain r h' where mh: "m h = (r, h')" by (cases "m h")
  from m n mh have 1: "n \<le> next_free h'" "\<forall>p<n. cells h' p = cells h p"
    and q: "case r of Inl e \<Rightarrow> True | Inr v \<Rightarrow> Q v"
    by (auto simp: preserves_def dest!: spec [where x = h])
  show "n \<le> next_free (snd (bindH m f h)) \<and> (\<forall>p<n. cells (snd (bindH m f h)) p = cells h p)
        \<and> (case fst (bindH m f h) of Inl e \<Rightarrow> True | Inr v \<Rightarrow> Q' v)"
  proof (cases r)
    case (Inl e)
    then show ?thesis using mh 1 by (simp add: bindH_def)
  next
    case (Inr v)
    with q have "Q v" by simp
    from f [OF this] 1(1) have
      "n \<le> next_free (snd (f v h'))" "\<forall>p<n. cells (snd (f v h')) p = cells h' p"
      "case fst (f v h') of Inl e \<Rightarrow> True | Inr w \<Rightarrow> Q' w"
      by (auto simp: preserves_def dest!: spec [where x = h'])
    then show ?thesis using mh Inr 1(2) by (simp add: bindH_def)
  qed
qed

lemma preserves_update: "n \<le> p \<Longrightarrow> preserves n (updateH p f) (\<lambda>v. True)"
  unfolding updateH_def
  by (rule preserves_bind [OF preserves_floats], rule preserves_bind [OF preserves_lift],
      rule preserves_store)

lemma preserves_new_floats: "preserves n (new_floats x) (\<lambda>p. n \<le> p)"
  unfolding new_floats_def
  by (rule preserves_bind [OF preserves_lift], rule preserves_new)

lemma preserves_for:
  assumes "\<And>x. preserves n (f x) (\<lambda>v. True)"
  shows "preserves n (forH xs f) (\<lambda>v. True)"
  by (induction xs) (auto intro: preserves_return preserves_bind assms)

lemma pb_floats: "(\<And>v. preserves n (f v) Q) \<Longrightarrow> preserves n (bindH (floatsH p) f) Q"
  by (rule preserves_bind [OF preserves_floats])

lemma pb_ints: "(\<And>v. preserves n (f v) Q) \<Longrightarrow> preserves n (bindH (intsH p) f) Q"
  by (rule preserves_bind [OF preserves_ints])

lemma pb_lift: "(\<And>v. preserves n (f v) Q) \<Longrightarrow> preserves n (bindH (liftE x) f) Q"
  by (rule preserves_bind [OF preserves_lift])

lemma pb_new: "(\<And>p. n \<le> p \<Longrightarrow> preserves n (f p) Q) \<Longrightarrow> preserves n (bindH (newH c) f) Q"
  by (rule preserves_bind [OF preserves_new])

lemma pb_new_floats:
  "(\<And>p. n \<le> p \<Longrightarrow> preserves n (f p) Q) \<Longrightarrow> preserves n (bindH (new_floats x) f) Q"
  by (rule preserves_bind [OF preserves_new_floats])

lemma pb_update:
  "n \<le> p \<Longrightarrow> (\<And>u. preserves n (f u) Q) \<Longrightarrow> preserves n (bindH (updateH p g) f) Q"
  by (rule preserves_bind [OF preserves_update])

lemma pb_for:
  "(\<And>x. preserves n (g x) (\<lambda>v. True)) \<Longrightarrow> (\<And>u. preserves n (f u) Q)
     \<Longrightarrow> preserves n (bindH (forH xs g) f) Q"
  by (rule preserves_bind [OF preserves_for])

lemma p_return: "preserves n (returnH v) (\<lambda>v. True)"
  by (rule preserves_return) simp

lemma p_raise: "preserves n (raiseH e) (\<lambda>v. True)"
  by (rule preserves_raise)

lemma p_new_floats: "preserves n (new_floats x) (\<lambda>v. True)"
  by (rule preserves_weaken [OF preserves_new_floats]) simp

lemma p_if: "preserves n a Q \<Longrightarrow> preserves n b Q \<Longrightarrow> preserves n (if c then a else b) Q"
  by simp

lemma p_case_list:
  "preserves n a Q \<Longrightarrow> (\<And>y ys. preserves n (f y ys) Q)
     \<Longrightarrow> preserves n (case xs of [] \<Rightarrow> a | y # ys \<Rightarrow> f y ys) Q"
  by (cases xs) simp_all

lemma p_case_prod: "(\<And>a b. preserves n (f a b) Q) \<Longrightarrow> preserves n (case v of (a, b) \<Rightarrow> f a b) Q"
  by (cases v) simp

lemma p_case_prod_app:
  "(\<And>a b. preserves n (f a b c) Q) \<Longrightarrow> preserves n ((case v of (a, b) \<Rightarrow> f a b) c) Q"
  by (cases v) simp

lemma p_case_option:
  "preserves n a Q \<Longrightarrow> (\<And>y. preserves n (f y) Q)
     \<Longrightarrow> preserves n (case v of None \<Rightarrow> a | Some y \<Rightarrow> f y) Q"
  by (cases v) simp_all

lemmas frame_rules =
  pb_floats pb_ints pb_lift pb_new pb_new_floats pb_update pb_for
  p_return p_raise p_new_floats preserves_update p_if p_case_list p_case_prod p_case_prod_app p_case_option

lemma relu_forward_h_frame: "preserves n (relu_forward_h a) (\<lambda>v. True)"
  unfolding relu_forward_h_def by (intro frame_rules)

lemma relu_backward_h_frame: "preserves n (relu_backward_h g a) (\<lambda>v. True)"
  unfolding relu_backward_h_def by (intro frame_rules)

lemma flatten_forward_h_frame: "preserves n (flatten_forward_h a) (\<lambda>v. True)"
  unfolding flatten_forward_h_def by (intro frame_rules)

lemma flatten_backward_h_frame: "preserves n (flatten_backward_h g a) (\<lambda>v. True)"
  unfolding flatten_backward_h_def by (intro frame_rules)

lemma matmul_forward_h_frame: "preserves n (matmul_forward_h a w) (\<lambda>v. True)"
  unfolding matmul_forward_h_def by (intro frame_rules)

lemma matmul_backward_h_frame: "preserves n (matmul_backward_h g a w) (\<lambda>v. True)"
  unfolding matmul_backward_h_def by (intro frame_rules)

lemma add_bias_forward_h_frame: "preserves n (add_bias_forward_h a b) (\<lambda>v. True)"
  unfolding add_bias_forward_h_def by (intro frame_rules)

lemma add_bias_backward_h_frame: "preserves n (add_bias_backward_h g a b) (\<lambda>v. True)"
  unfolding add_bias_backward_h_def by (intro frame_rules)

lemma linear_forward_h_frame: "preserves n (linear_forward_h a w b) (\<lambda>v. True)"
  unfolding linear_forward_h_def
  by (intro preserves_bind [OF matmul_forward_h_frame] add_bias_forward_h_frame)

lemma linear_backward_h_frame: "preserves n (linear_backward_h g a w b) (\<lambda>v. True)"
  unfolding linear_backward_h_def
  by (intro preserves_bind [OF add_bias_backward_h_frame]
      preserves_bind [OF matmul_backward_h_frame] p_case_prod p_return)

lemma fc_forward_h_frame: "preserves n (fc_forward_h a w b) (\<lambda>v. True)"
  unfolding fc_forward_h_def by (intro frame_rules)

lemma fc_backward_h_frame: "preserves n (fc_backward_h g a w b) (\<lambda>v. True)"
  unfolding fc_backward_h_def by (intro frame_rules)

lemma conv_forward_h_frame: "preserves n (conv_forward_h cp a w b) (\<lambda>v. True)"
  unfolding conv_forward_h_def by (intro frame_rules)

lemma conv_col2img_h_frame:
  "preserves n (conv_col2img_h dX_hat N c_i n_h n_w k_h k_w p s) (\<lambda>v. True)"
  unfolding conv_col2img_h_def by (intro frame_rules | assumption)+

lemma conv_backward_h_frame: "preserves n (conv_backward_h cp g a w b) (\<lambda>v. True)"
  unfolding conv_backward_h_def Let_def
  by (intro frame_rules preserves_bind [OF conv_col2img_h_frame])

lemma pool_forward_h_frame: "preserves n (pool_forward_h pp a) (\<lambda>v. True)"
  unfolding pool_forward_h_def Let_def by (intro frame_rules | assumption)+

lemma pool_scatter_h_frame:
  "preserves n (pool_scatter_h batch C p_h p_w pg sh rh rw off ih iw) (\<lambda>v. True)"
  unfolding pool_scatter_h_def by (intro frame_rules | assumption)+

lemma pool_backward_h_frame: "preserves n (pool_backward_h pp g a) (\<lambda>v. True)"
  unfolding pool_backward_h_def Let_def by (intro frame_rules pool_scatter_h_frame)

lemma conv_forward_fn_h_frame: "preserves n (conv_forward_fn_h a w b cp) (\<lambda>v. True)"
  unfolding conv_forward_fn_h_def by (intro frame_rules)

lemma conv_backward_fn_h_frame: "preserves n (conv_backward_fn_h g a w b cp) (\<lambda>v. True)"
  unfolding conv_backward_fn_h_def Let_def by (intro frame_rules | assumption)+

lemma pool_forward_fn_h_frame: "preserves n (pool_forward_fn_h a pp) (\<lambda>v. True)"
  unfolding pool_forward_fn_h_def by (intro frame_rules)

lemma pool_backward_fn_h_frame: "preserves n (pool_backward_fn_h g a pp) (\<lambda>v. True)"
  unfolding pool_backward_fn_h_def Let_def by (intro frame_rules pool_scatter_h_frame)

lemma dropout_forward_fn_h_frame:
  "preserves n (dropout_forward_fn_h R e g a r t sd) (\<lambda>v. True)"
  unfolding dropout_forward_fn_h_def by (intro frame_rules)

lemma dropout_backward_fn_h_frame:
  "preserves n (dropout_backward_fn_h g a r m t) (\<lambda>v. True)"
  unfolding dropout_backward_fn_h_def by (intro frame_rules)

lemma dropout_forward_h_frame:
  "preserves n (dropout_forward_h R e g r sd t m a) (\<lambda>v. True)"
  unfolding dropout_forward_h_def by (intro frame_rules)

lemma dropout_backward_h_frame: "preserves n (dropout_backward_h t m g a) (\<lambda>v. True)"
  unfolding dropout_backward_h_def by (intro frame_rules)

lemma vanilla_rnn_forward_h_frame:
  "preserves n (vanilla_rnn_forward_h x ph k rk b) (\<lambda>v. True)"
  unfolding vanilla_rnn_forward_h_def by (intro frame_rules)

lemma vanilla_rnn_backward_h_frame:
  "preserves n (vanilla_rnn_backward_h g x ph k rk b) (\<lambda>v. True)"
  unfolding vanilla_rnn_backward_h_def by (intro frame_rules)

lemma gru_forward_h_frame: "preserves n (gru_forward_h sg x ph k rk) (\<lambda>v. True)"
  unfolding gru_forward_h_def by (intro frame_rules)

lemma gru_backward_h_frame: "preserves n (gru_backward_h sg g x ph k rk) (\<lambda>v. True)"
  unfolding gru_backward_h_def by (intro frame_rules)

lemma softmax_cross_entropy_forward_h_frame:
  "preserves n (softmax_cross_entropy_forward_h a l) (\<lambda>v. True)"
  unfolding softmax_cross_entropy_forward_h_def by (intro frame_rules)

lemma softmax_cross_entropy_backward_h_frame:
  "preserves n (softmax_cross_entropy_backward_h a l) (\<lambda>v. True)"
  unfolding softmax_cross_entropy_backward_h_def Let_def by (intro frame_rules | assumption)+

lemma sce_forward_h_frame: "preserves n (sce_forward_h a l) (\<lambda>v. True)"
  unfolding sce_forward_h_def by (intro frame_rules)

lemma sce_backward_h_frame: "preserves n (sce_backward_h a l) (\<lambda>v. True)"
  unfolding sce_backward_h_def Let_def by (intro frame_rules | assumption)+

section \<open>The operators over the store compute what the pure ones compute\<close>

lemma bindH_floatsH:
  "p < next_free h \<Longrightarrow> cells h p = FloatArray a \<Longrightarrow> bindH (floatsH p) f h = f a h"
  by (simp add: bindH_def floatsH_def)

lemma bindH_intsH:
  "p < next_free h \<Longrightarrow> cells h p = IntArray a \<Longrightarrow> bindH (intsH p) f h = f a h"
  by (simp add: bindH_def intsH_def)

lemma bindH_liftE: "bindH (liftE x) f h = (case x of Inl e \<Rightarrow> (Inl e, h) | Inr v \<Rightarrow> f v h)"
  by (simp add: bindH_def liftE_def split: sum.splits)

lemma bindH_newH:
  "bindH (newH c) f h
     = f (next_free h) (h\<lparr>cells := (cells h)(next_free h := c), next_free := Suc (next_free h)\<rparr>)"
  by (simp add: bindH_def newH_def)

lemma bindH_new_floats:
  "bindH (new_floats x) f h
     = (case x of Inl e \<Rightarrow> (Inl e, h)
        | Inr a \<Rightarrow> f (next_free h)
            (h\<lparr>cells := (cells h)(next_free h := FloatArray a), next_free := Suc (next_free h)\<rparr>))"
  by (simp add: new_floats_def bindH_def liftE_def newH_def split: sum.splits)

lemma bindH_updateH:
  "p < next_free h \<Longrightarrow> cells h p = FloatArray a \<Longrightarrow>
   bindH (updateH p g) f h
     = (case g a of Inl e \<Rightarrow> (Inl e, h) | Inr a' \<Rightarrow> f () (h\<lparr>cells := (cells h)(p := FloatArray a')\<rparr>))"
  by (simp add: updateH_def bindH_def floatsH_def liftE_def storeH_def split: sum.splits)

lemma softmax_cross_entropy_backward_h_refines:
  assumes "a < next_free h" "cells h a = FloatArray x" "l < next_free h" "cells h l = IntArray (array1 labels)"
  shows "result_floats (softmax_cross_entropy_backward_h a l) h
     = softmax_cross_entropy_backward x labels"
  using assms
  by (auto simp: result_floats_def softmax_cross_entropy_backward_h_def
      softmax_cross_entropy_backward_def Let_def bindH_floatsH bindH_intsH bindH_new_floats
      bindH_newH bindH_updateH returnH_def array1_def thenE_def
      split: sum.splits)

lemma forH_updateH:
  assumes "p < next_free h" and "cells h p = FloatArray a"
  shows "case foldE g a xs of
           Inl e \<Rightarrow> fst (forH xs (\<lambda>x. updateH p (\<lambda>b. g b x)) h) = Inl e
         | Inr a' \<Rightarrow> forH xs (\<lambda>x. updateH p (\<lambda>b. g b x)) h
                      = (Inr (), h\<lparr>cells := (cells h)(p := FloatArray a')\<rparr>)"
  using assms
proof (induction xs arbitrary: a h)
  case Nil
  then have "h\<lparr>cells := (cells h)(p := FloatArray a)\<rparr> = h"
    by (simp add: fun_upd_idem)
  then show ?case by (simp add: returnH_def)
next
  case (Cons x xs)
  show ?case
  proof (cases "g a x")
    case (Inl e)
    then show ?thesis
      using Cons.prems by (simp add: bindH_updateH)
  next
    case (Inr a1)
    let ?h1 = "h\<lparr>cells := (cells h)(p := FloatArray a1)\<rparr>"
    have "p < next_free ?h1" "cells ?h1 p = FloatArray a1"
      using Cons.prems by simp_all
    moreover have "?h1\<lparr>cells := (cells ?h1)(p := c)\<rparr> = h\<lparr>cells := (cells h)(p := c)\<rparr>" for c
      by simp
    ultimately have "case foldE g a1 xs of
           Inl e \<Rightarrow> fst (forH xs (\<lambda>x. updateH p (\<lambda>b. g b x)) ?h1) = Inl e
         | Inr a' \<Rightarrow> forH xs (\<lambda>x. updateH p (\<lambda>b. g b x)) ?h1
                      = (Inr (), h\<lparr>cells := (cells h)(p := FloatArray a')\<rparr>)"
      using Cons.IH [of ?h1 a1] by (simp split: sum.splits)
    then show ?thesis
      using Cons.prems Inr by (simp add: bindH_updateH fun_upd_def split: sum.splits)
  qed
qed

lemma bindH_forH_updateH:
  assumes "p < next_free h" and "cells h p = FloatArray a"
  shows "result_floats (bindH (forH xs (\<lambda>x. updateH p (\<lambda>b. g b x))) f) h
     = (case foldE g a xs of
          Inl e \<Rightarrow> Inl e
        | Inr a' \<Rightarrow> result_floats (f ()) (h\<lparr>cells := (cells h)(p := FloatArray a')\<rparr>))"
proof (cases "foldE g a xs")
  case (Inl e)
  with forH_updateH [OF assms, where g = g and xs = xs]
  have "fst (forH xs (\<lambda>x. updateH p (\<lambda>b. g b x)) h) = Inl e" by simp
  then show ?thesis
    using Inl by (cases "forH xs (\<lambda>x. updateH p (\<lambda>b. g b x)) h")
      (simp add: result_floats_def bindH_def)
next
  case (Inr a')
  with forH_updateH [OF assms, where g = g and xs = xs] show ?thesis
    by (simp add: result_floats_def bindH_def)
qed

lemma result_floats_bindH_floatsH:
  "p < next_free h \<Longrightarrow> cells h p = FloatArray a \<Longrightarrow>
   result_floats (bindH (floatsH p) f) h = result_floats (f a) h"
  by (simp add: result_floats_def bindH_floatsH)

lemma result_floats_bindH_liftE:
  "result_floats (bindH (liftE x) f) h
     = (case x of Inl e \<Rightarrow> Inl e | Inr v \<Rightarrow> result_floats (f v) h)"
  by (simp add: result_floats_def bindH_liftE split: sum.splits)

lemma result_floats_bindH_newH:
  "result_floats (bindH (newH c) f) h
     = result_floats (f (next_free h))
         (h\<lparr>cells := (cells h)(next_free h := c), next_free := Suc (next_free h)\<rparr>)"
  by (simp add: result_floats_def bindH_newH)

lemma result_floats_new_floats: "result_floats (new_floats x) h = x"
  by (simp add: result_floats_def new_floats_def bindH_def liftE_def newH_def split: sum.splits)

lemma result_floats_raiseH: "result_floats (raiseH e) h = Inl e"
  by (simp add: result_floats_def raiseH_def)

lemma pool_forward_h_refines:
  assumes "a < next_free h" "cells h a = FloatArray x"
  shows "result_floats (pool_forward_h pp a) h = pool_forward pp x"
  using assms
  by (auto simp: pool_forward_h_def pool_forward_def Let_def result_floats_bindH_floatsH
      result_floats_bindH_liftE result_floats_bindH_newH bindH_forH_updateH
      result_floats_new_floats result_floats_raiseH thenE_def
      split: sum.splits list.splits)

lemma pool_scatter_h_refines:
  "result_floats (pool_scatter_h batch C p_h p_w pg sh rh rw off ih iw) h
     = thenE (pool_scatter batch C p_h p_w pg (np_zeros sh) rh rw)
         (\<lambda>g. Inr (slice4 g off (off + ih) off (off + iw)))"
  by (auto simp: pool_scatter_h_def pool_scatter_def result_floats_bindH_floatsH
      result_floats_bindH_newH bindH_forH_updateH result_floats_new_floats thenE_def
      split: sum.splits)

lemma pool_backward_h_refines:
  assumes "g < next_free h" "cells h g = FloatArray gv" "a < next_free h" "cells h a = FloatArray x"
  shows "result_floats (pool_backward_h pp g a) h = pool_backward pp gv x"
  using assms
  by (auto simp: pool_backward_h_def pool_backward_def Let_def result_floats_bindH_floatsH
      result_floats_bindH_liftE pool_scatter_h_refines result_floats_raiseH thenE_def
      split: sum.splits list.splits)

lemma pool_backward_fn_h_refines:
  assumes "g < next_free h" "cells h g = FloatArray gv" "a < next_free h" "cells h a = FloatArray x"
  shows "result_floats (pool_backward_fn_h g a pp) h = pool_backward_fn gv x pp"
  using assms
  by (auto simp: pool_backward_fn_h_def pool_backward_fn_def Let_def result_floats_bindH_floatsH
      result_floats_bindH_liftE pool_scatter_h_refines result_floats_raiseH thenE_def
      split: sum.splits list.splits)

lemma bindH_assoc: "bindH (bindH m f) g = bindH m (\<lambda>v. bindH (f v) g)"
  by (auto simp: bindH_def fun_eq_iff split: prod.splits sum.splits)

lemma bindH_returnH: "bindH (returnH v) f = f v"
  by (simp add: bindH_def returnH_def)

lemma bindH_if: "bindH (if c then a else b) f = (if c then bindH a f else bindH b f)"
  by simp

lemma bindH_case_prod:
  "bindH (case v of (a, b) \<Rightarrow> k a b) f = (case v of (a, b) \<Rightarrow> bindH (k a b) f)"
  by (cases v) simp

lemma r3_floatsH:
  "p < next_free h \<Longrightarrow> cells h p = FloatArray a \<Longrightarrow>
   result_floats3 (bindH (floatsH p) f) h = result_floats3 (f a) h"
  by (simp add: result_floats3_def bindH_floatsH)

lemma r3_liftE:
  "result_floats3 (bindH (liftE x) f) h
     = (case x of Inl e \<Rightarrow> Inl e | Inr v \<Rightarrow> result_floats3 (f v) h)"
  by (simp add: result_floats3_def bindH_liftE split: sum.splits)

lemma r3_newH:
  "result_floats3 (bindH (newH c) f) h
     = result_floats3 (f (next_free h))
         (h\<lparr>cells := (cells h)(next_free h := c), next_free := Suc (next_free h)\<rparr>)"
  by (simp add: result_floats3_def bindH_newH)

lemma r3_new_floats:
  "result_floats3 (bindH (new_floats x) f) h
     = (case x of Inl e \<Rightarrow> Inl e
        | Inr a \<Rightarrow> result_floats3 (f (next_free h))
            (h\<lparr>cells := (cells h)(next_free h := FloatArray a), next_free := Suc (next_free h)\<rparr>))"
  by (simp add: result_floats3_def bindH_new_floats split: sum.splits)

lemma r3_updateH:
  "p < next_free h \<Longrightarrow> cells h p = FloatArray a \<Longrightarrow>
   result_floats3 (bindH (updateH p g) f) h
     = (case g a of Inl e \<Rightarrow> Inl e
        | Inr a' \<Rightarrow> result_floats3 (f ()) (h\<lparr>cells := (cells h)(p := FloatArray a')\<rparr>))"
  by (simp add: result_floats3_def bindH_updateH split: sum.splits)

lemma r3_raiseH: "result_floats3 (raiseH e) h = Inl e"
  by (simp add: result_floats3_def raiseH_def)

lemma r3_returnH:
  "cells h p = FloatArray a \<Longrightarrow> cells h q = FloatArray b \<Longrightarrow> cells h r = FloatArray c \<Longrightarrow>
   result_floats3 (returnH (p, q, r)) h = Inr (a, b, c)"
  by (simp add: result_floats3_def returnH_def)

lemma r3_forH_updateH:
  assumes "p < next_free h" and "cells h p = FloatArray a"
  shows "result_floats3 (bindH (forH xs (\<lambda>x. updateH p (\<lambda>b. g b x))) f) h
     = (case foldE g a xs of
          Inl e \<Rightarrow> Inl e
        | Inr a' \<Rightarrow> result_floats3 (f ()) (h\<lparr>cells := (cells h)(p := FloatArray a')\<rparr>))"
proof (cases "foldE g a xs")
  case (Inl e)
  with forH_updateH [OF assms, where g = g and xs = xs]
  have "fst (forH xs (\<lambda>x. updateH p (\<lambda>b. g b x)) h) = Inl e" by simp
  then show ?thesis
    using Inl by (cases "forH xs (\<lambda>x. updateH p (\<lambda>b. g b x)) h")
      (simp add: result_floats3_def bindH_def)
next
  case (Inr a')
  with forH_updateH [OF assms, where g = g and xs = xs] show ?thesis
    by (simp add: result_floats3_def bindH_def)
qed

lemmas r3_rules = r3_floatsH r3_liftE r3_newH r3_new_floats r3_updateH r3_raiseH r3_returnH
  r3_forH_updateH bindH_assoc bindH_returnH bindH_if bindH_case_prod

lemma conv_backward_h_refines:
  assumes "g < next_free h" "cells h g = FloatArray gv" "a < next_free h" "cells h a = FloatArray x"
    "w < next_free h" "cells h w = FloatArray wv"
  shows "result_floats3 (conv_backward_h cp g a w b) h = conv_backward cp gv x wv bv"
  using assms
  by (auto simp: conv_backward_h_def conv_backward_def conv_col2img_h_def conv_col2img_def
      Let_def r3_rules thenE_def split: sum.splits list.splits prod.splits)

lemma conv_backward_fn_h_refines:
  assumes "g < next_free h" "cells h g = FloatArray gv" "a < next_free h" "cells h a = FloatArray x"
    "w < next_free h" "cells h w = FloatArray wv"
  shows "result_floats3 (conv_backward_fn_h g a w b cp) h = conv_backward_fn gv x wv bv cp"
  using assms
  by (auto simp: conv_backward_fn_h_def conv_backward_fn_def
      Let_def r3_rules thenE_def split: sum.splits list.splits prod.splits)

section \<open>No operator changes its arguments\<close>

lemma sce_backward_h_refines:
  assumes "a < next_free h" "cells h a = FloatArray x" "l < next_free h" "cells h l = IntArray (array1 labels)"
  shows "result_floats (sce_backward_h a l) h = sce_backward x labels"
  using assms
  by (auto simp: result_floats_def sce_backward_h_def
      sce_backward_def softmax_cross_entropy_backward_def Let_def bindH_floatsH bindH_intsH bindH_new_floats
      bindH_newH bindH_updateH returnH_def array1_def thenE_def
      split: sum.splits)

text \<open>
  Claim C9. No operator changes an array that exists when it is called, in its forward
  or in its backward pass, whether it returns or raises: the input, the weights, the bias,
  the gradient of the output and the labels hold afterwards exactly what they held before.
  The in-place statements of the source (in \<open>softmax_cross_entropy.backward\<close>,
  \<open>conv.col2img\<close>, \<open>conv_backward\<close>, \<open>pool.forward\<close> and the pooling backward passes)
  all store into arrays that the call itself has created.
\<close>

theorem operators_keep_arguments:
  "keeps_arrays (softmax_cross_entropy_backward_h input labels)
   \<and> keeps_arrays (sce_backward_h input labels)
   \<and> keeps_arrays (conv_backward_h cp out_grad input weights bias)
   \<and> keeps_arrays (conv_backward_fn_h out_grad input weights bias cp)
   \<and> keeps_arrays (pool_forward_h pp input)
   \<and> keeps_arrays (pool_backward_h pp out_grad input)
   \<and> keeps_arrays (pool_backward_fn_h out_grad input pp)
   \<and> keeps_arrays (relu_forward_h input)
   \<and> keeps_arrays (relu_backward_h out_grad input)
   \<and> keeps_arrays (flatten_forward_h input)
   \<and> keeps_arrays (flatten_backward_h out_grad input)
   \<and> keeps_arrays (matmul_forward_h input weights)
   \<and> keeps_arrays (matmul_backward_h out_grad input weights)
   \<and> keeps_arrays (add_bias_forward_h input bias)
   \<and> keeps_arrays (add_bias_backward_h out_grad input bias)
   \<and> keeps_arrays (linear_forward_h input weights bias)
   \<and> keeps_arrays (linear_backward_h out_grad input weights bias)
   \<and> keeps_arrays (fc_forward_h input weights bias)
   \<and> keeps_arrays (fc_backward_h out_grad input weights bias)
   \<and> keeps_arrays (conv_forward_h cp input weights bias)
   \<and> keeps_arrays (conv_forward_fn_h input weights bias cp)
   \<and> keeps_arrays (pool_forward_fn_h input pp)
   \<and> keeps_arrays (dropout_forward_fn_h R entropy g input r is_training sd)
   \<and> keeps_arrays (dropout_backward_fn_h out_grad input r m is_training)
   \<and> keeps_arrays (dropout_forward_h R entropy g self_rate self_seed self_training self_mask input)
   \<and> keeps_arrays (dropout_backward_h self_training self_mask out_grad input)
   \<and> keeps_arrays (vanilla_rnn_forward_h x prev_h kern recurrent_kernel bias)
   \<and> keeps_arrays (vanilla_rnn_backward_h out_grad x prev_h kern recurrent_kernel bias)
   \<and> keeps_arrays (gru_forward_h sigmoid x prev_h kern recurrent_kernel)
   \<and> keeps_arrays (gru_backward_h sigmoid out_grad x prev_h kern recurrent_kernel)
   \<and> keeps_arrays (softmax_cross_entropy_forward_h input labels)
   \<and> keeps_arrays (sce_forward_h input labels)"
  by (intro conjI preserves_keeps relu_forward_h_frame relu_backward_h_frame
      flatten_forward_h_frame flatten_backward_h_frame matmul_forward_h_frame
      matmul_backward_h_frame add_bias_forward_h_frame add_bias_backward_h_frame
      linear_forward_h_frame linear_backward_h_frame fc_forward_h_frame fc_backward_h_frame
      conv_forward_h_frame conv_backward_h_frame conv_forward_fn_h_frame
      conv_backward_fn_h_frame pool_forward_h_frame pool_backward_h_frame
      pool_forward_fn_h_frame pool_backward_fn_h_frame dropout_forward_fn_h_frame
      dropout_backward_fn_h_frame dropout_forward_h_frame dropout_backward_h_frame
      vanilla_rnn_forward_h_frame vanilla_rnn_backward_h_frame gru_forward_h_frame
      gru_backward_h_frame softmax_cross_entropy_forward_h_frame
      softmax_cross_entropy_backward_h_frame sce_forward_h_frame sce_backward_h_frame)

text \<open>
  A call on a store of two arrays, the logits \<open>[[0, 0]]\<close> and the labels \<open>[1]\<close>: it
  returns the gradient of the pure function in a new array, and the two arguments hold what
  they held.
\<close>

theorem operators_keep_arguments_witness:
  "result_floats (softmax_cross_entropy_backward_h 0 1)
      \<lparr>cells = (\<lambda>p. if p = 0 then FloatArray (array2 [[0, 0]]) else IntArray (array1 [1])),
       next_free = 2\<rparr> = Inr (spec_grad (array2 [[0, 0]]) [1])
   \<and> cells (snd (softmax_cross_entropy_backward_h 0 1
          \<lparr>cells = (\<lambda>p. if p = 0 then FloatArray (array2 [[0, 0]]) else IntArray (array1 [1])),
           next_free = 2\<rparr>)) 0 = FloatArray (array2 [[0, 0]])
   \<and> cells (snd (softmax_cross_entropy_backward_h 0 1
          \<lparr>cells = (\<lambda>p. if p = 0 then FloatArray (array2 [[0, 0]]) else IntArray (array1 [1])),
           next_free = 2\<rparr>)) 1 = IntArray (array1 [1])"
proof -
  have k: "keeps_arrays (softmax_cross_entropy_backward_h 0 1)"
    by (rule operators_keep_arguments [THEN conjunct1])
  have "softmax_cross_entropy_backward (array2 [[0, 0]]) [1]
      = Inr (spec_grad (array2 [[0, 0]]) [1])"
    by (rule softmax_backward_spec [where B = 1 and C = 2]) (simp_all add: array2_def)
  then have r: "result_floats (softmax_cross_entropy_backward_h 0 1)
      \<lparr>cells = (\<lambda>p. if p = 0 then FloatArray (array2 [[0, 0]]) else IntArray (array1 [1])),
       next_free = 2\<rparr> = Inr (spec_grad (array2 [[0, 0]]) [1])"
    by (subst softmax_cross_entropy_backward_h_refines [where x = "array2 [[0, 0]]" and labels = "[1]"])
      simp_all
  show ?thesis
    using k r by (simp add: keeps_arrays_def)
qed

section \<open>The end-to-end scenario of the linear layer\<close>

text \<open>
  Claim C3. With the identity weights \<open>[[1,0],[0,1]]\<close>, bias \<open>[0,0]\<close> and input \<open>[[1,2]]\<close>,
  the linear operator and the free-function duplicate return \<open>[[1,2]]\<close> forward. Backward
  with \<open>grad_output = [[1,1]]\<close> they return \<open>grad_input = [[1,1]]\<close> and \<open>grad_bias = [1,1]\<close>;
  the weight gradient is \<open>input\<^sup>T \<cdot> grad_output = [[1,1],[2,2]]\<close>, the transpose of the
  value \<open>[[1,2],[1,2]]\<close> of the scenario as written.
\<close>

theorem linear_identity_scenario:
  "linear_forward (array2 [[1, 2]]) (array2 [[1, 0], [0, 1]]) (array1 [0, 0]) = Inr (array2 [[1, 2]])
   \<and> linear_backward (array2 [[1, 1]]) (array2 [[1, 2]]) (array2 [[1, 0], [0, 1]]) (array1 [0, 0])
       = Inr (array2 [[1, 1]], array2 [[1, 1], [2, 2]], array1 [1, 1])
   \<and> fc_forward (array2 [[1, 2]]) (array2 [[1, 0], [0, 1]]) (array1 [0, 0]) = Inr (array2 [[1, 2]])
   \<and> fc_backward (array2 [[1, 1]]) (array2 [[1, 2]]) (array2 [[1, 0], [0, 1]]) (array1 [0, 0])
       = Inr (array2 [[1, 1]], array2 [[1, 1], [2, 2]], array1 [1, 1])"
  by code_simp

text \<open>The scenario as written fails on the weight gradient, for the class and the free function.\<close>

theorem linear_identity_scenario_counterexample:
  "linear_backward (array2 [[1, 1]]) (array2 [[1, 2]]) (array2 [[1, 0], [0, 1]]) (array1 [0, 0])
       \<noteq> Inr (array2 [[1, 1]], array2 [[1, 2], [1, 2]], array1 [1, 1])
   \<and> fc_backward (array2 [[1, 1]]) (array2 [[1, 2]]) (array2 [[1, 0], [0, 1]]) (array1 [0, 0])
       \<noteq> Inr (array2 [[1, 1]], array2 [[1, 2], [1, 2]], array1 [1, 1])"
  by code_simp

end
